theory Spec2Isabelle
  imports Main "HOL-Library.Word"
begin

section \<open>JavaScript strings\<close>

text \<open>
  A JavaScript string is a sequence of UTF-16 code units: \<open>length\<close>, \<open>startsWith\<close> and a
  regular expression without the \<open>u\<close> flag all work on code units.  A string is therefore a
  list of 16-bit words.  ASCII literals are written \<open>js ''...''\<close>; the pictographs of the
  source are written as their code units.
\<close>

type_synonym js_string = "16 word list"

definition js :: "string \<Rightarrow> js_string" where
  "js s = map of_char s"

text \<open>\<open>String.prototype.startsWith\<close>.\<close>

definition startsWith :: "js_string \<Rightarrow> js_string \<Rightarrow> bool" where
  "startsWith s p = (take (length p) s = p)"

text \<open>\<open>Array.prototype.join\<close> on an array of strings.\<close>

fun join :: "js_string \<Rightarrow> js_string list \<Rightarrow> js_string" where
  "join sep [] = []"
| "join sep [x] = x"
| "join sep (x # y # ys) = x @ sep @ join sep (y # ys)"

text \<open>A non-negative integer inside a template literal: its decimal digits.\<close>

fun show_nat :: "nat \<Rightarrow> js_string" where
  "show_nat n =
     (if n < 10 then [of_nat (48 + n)]
      else show_nat (n div 10) @ [of_nat (48 + n mod 10)])"

declare show_nat.simps [simp del]

text \<open>
  An optional value (a property that may be \<open>undefined\<close>) is an \<open>option\<close>.  Inside a template
  literal \<open>undefined\<close> prints as the word \<open>undefined\<close>; in a condition \<open>undefined\<close> and the
  empty string are falsy and every other string is truthy.
\<close>

definition str_of :: "js_string option \<Rightarrow> js_string" where
  "str_of v = (case v of None \<Rightarrow> js ''undefined'' | Some s \<Rightarrow> s)"

definition truthy :: "js_string option \<Rightarrow> bool" where
  "truthy v = (case v of None \<Rightarrow> False | Some s \<Rightarrow> s \<noteq> [])"

section \<open>The branch-name policy: \<open>GithubTool.validateBranchName\<close>\<close>

text \<open>The local object \<open>rules\<close>: the prefix whitelist, the maximal length, the character class.\<close>

definition prefixes :: "js_string list" where
  "prefixes =
     [js ''feature/'', js ''fix/'', js ''enhancement/'', js ''hotfix/'', js ''bugfix/'',
      js ''feat/'', js ''chore/'', js ''docs/'', js ''style/'', js ''refactor/'', js ''test/'']"

definition maxLength :: nat where
  "maxLength = 50"

text \<open>
  One code unit of the class \<open>[a-z0-9\/\-_]\<close> under the flag \<open>i\<close>.  Without the flag \<open>u\<close>
  case folding never maps a code unit above 127 to an ASCII letter, so the class holds the
  ASCII letters of both cases, the digits, the slash, the hyphen and the underscore.
\<close>

definition allowed_unit :: "16 word \<Rightarrow> bool" where
  "allowed_unit c =
     ((of_char CHR ''a'' \<le> c \<and> c \<le> of_char CHR ''z'') \<or>
      (of_char CHR ''A'' \<le> c \<and> c \<le> of_char CHR ''Z'') \<or>
      (of_char CHR ''0'' \<le> c \<and> c \<le> of_char CHR ''9'') \<or>
      c = of_char CHR ''/'' \<or> c = of_char CHR ''-'' \<or> c = of_char CHR ''_'')"

text \<open>\<open>/^[a-z0-9\/\-_]+$/i.test(s)\<close>: one or more code units, all of the class.\<close>

definition allowedChars_test :: "js_string \<Rightarrow> bool" where
  "allowedChars_test s = (s \<noteq> [] \<and> list_all allowed_unit s)"

text \<open>The object returned by \<open>validateBranchName\<close>; a property that is not set is \<open>None\<close>.\<close>

record validation =
  isValid :: bool
  error :: "js_string option"
  rules :: "js_string option"
  complianceMessage :: "js_string option"

definition clipboard :: js_string where
  "clipboard = [0xD83D, 0xDCCB]"

definition bullet :: js_string where
  "bullet = [0x2022]"

definition check_mark :: js_string where
  "check_mark = [0x2705]"

definition cross_mark :: js_string where
  "cross_mark = [0x274C]"

definition prefix_error :: js_string where
  "prefix_error = js ''Branch name must start with one of: '' @ join (js '', '') prefixes"

definition prefix_rules :: js_string where
  "prefix_rules =
     clipboard @ js '' Git Best Practice Rules:\<newline>'' @
     bullet @ js '' Use descriptive prefixes (feature/, fix/, enhancement/, etc.)\<newline>'' @
     bullet @ js '' Keep names under '' @ show_nat maxLength @ js '' characters\<newline>'' @
     bullet @ js '' Use lowercase with hyphens or underscores\<newline>'' @
     bullet @ js '' Example: feature/user-authentication or fix/login-bug''"

definition length_error :: "js_string \<Rightarrow> js_string" where
  "length_error branchName =
     js ''Branch name too long ('' @ show_nat (length branchName) @ js ''/'' @
     show_nat maxLength @ js '' chars)''"

definition length_rules :: js_string where
  "length_rules =
     clipboard @ js '' Git Best Practice Rules:\<newline>'' @
     bullet @ js '' Keep branch names under '' @ show_nat maxLength @ js '' characters\<newline>'' @
     bullet @ js '' Use concise but descriptive names''"

definition chars_error :: js_string where
  "chars_error = js ''Branch name contains invalid characters''"

definition chars_rules :: js_string where
  "chars_rules =
     clipboard @ js '' Git Best Practice Rules:\<newline>'' @
     bullet @ js '' Use only letters, numbers, hyphens, underscores, and forward slashes\<newline>'' @
     bullet @ js '' No spaces or special characters''"

definition compliance_text :: js_string where
  "compliance_text = check_mark @ js '' Branch name follows company Git best practices''"

definition hasValidPrefix :: "js_string \<Rightarrow> bool" where
  "hasValidPrefix branchName = list_ex (\<lambda>prefix. startsWith branchName prefix) prefixes"

definition validateBranchName :: "js_string \<Rightarrow> validation" where
  "validateBranchName branchName =
     (if \<not> hasValidPrefix branchName then
        \<lparr>isValid = False, error = Some prefix_error, rules = Some prefix_rules,
         complianceMessage = None\<rparr>
      else if length branchName > maxLength then
        \<lparr>isValid = False, error = Some (length_error branchName), rules = Some length_rules,
         complianceMessage = None\<rparr>
      else if \<not> allowedChars_test branchName then
        \<lparr>isValid = False, error = Some chars_error, rules = Some chars_rules,
         complianceMessage = None\<rparr>
      else
        \<lparr>isValid = True, error = None, rules = None,
         complianceMessage = Some compliance_text\<rparr>)"

section \<open>Asynchronous functions: state, exceptions, \<open>try\<close>/\<open>catch\<close>\<close>

text \<open>
  What is thrown is an error object with a message: every \<open>throw\<close> of the repository is
  \<open>throw new Error(...)\<close>, the client libraries reject with error objects, and the
  handlers read the property \<open>message\<close> only.
\<close>

datatype js_error = Error (error_message: js_string)

text \<open>
  A call of an \<open>async\<close> function runs against the outside world (the remote services and
  the clock), a state of type \<open>'w\<close>.  It either returns a value (\<open>Inr\<close>, the promise is
  fulfilled) or throws (\<open>Inl\<close>, the promise is rejected), and leaves a new state in both
  cases.  \<open>await\<close> is sequencing.
\<close>

type_synonym ('w, 'a) js = "'w \<Rightarrow> (js_error + 'a) \<times> 'w"

definition js_return :: "'a \<Rightarrow> ('w, 'a) js" where
  "js_return x = (\<lambda>w. (Inr x, w))"

definition js_throw :: "js_error \<Rightarrow> ('w, 'a) js" where
  "js_throw e = (\<lambda>w. (Inl e, w))"

definition js_bind :: "('w, 'a) js \<Rightarrow> ('a \<Rightarrow> ('w, 'b) js) \<Rightarrow> ('w, 'b) js" where
  "js_bind m f = (\<lambda>w. case m w of (Inl e, w') \<Rightarrow> (Inl e, w') | (Inr x, w') \<Rightarrow> f x w')"

definition js_try_catch :: "('w, 'a) js \<Rightarrow> (js_error \<Rightarrow> ('w, 'a) js) \<Rightarrow> ('w, 'a) js" where
  "js_try_catch m h = (\<lambda>w. case m w of (Inl e, w') \<Rightarrow> h e w' | (Inr x, w') \<Rightarrow> (Inr x, w'))"

text \<open>A synchronous library function that may throw, called inside an \<open>async\<close> function.\<close>

definition js_of_sum :: "js_error + 'a \<Rightarrow> ('w, 'a) js" where
  "js_of_sum r = (\<lambda>w. (r, w))"

section \<open>The version-control adapter: \<open>GithubTool\<close>\<close>

text \<open>
  The value every tool returns: \<open>{ content: [{ type: "text", text }], isError }\<close>.  A result
  without the property \<open>isError\<close> has \<open>isError = False\<close>.
\<close>

record tool_result =
  content_text :: js_string
  isError :: bool

text \<open>One entry of \<open>this.repos\<close>.\<close>

record repo_entry =
  r_name :: js_string
  r_repo :: js_string
  r_defaultBranch :: "js_string option"

text \<open>The data of the responses of the Octokit client that the tool reads.\<close>

record branch_data =
  b_name :: js_string
  b_protected :: bool

record pr_data =
  pr_number :: nat
  pr_title :: js_string
  pr_head_ref :: js_string
  pr_base_ref :: js_string
  pr_html_url :: js_string

record file_data =
  f_content :: js_string
  f_sha :: js_string

text \<open>
  The remote operations of \<open>this.octokit.rest\<close>, by their request properties in the order of
  the source; \<open>git_getRef\<close> returns \<open>data.object.sha\<close>.  Each one is a call to the remote
  service: it may change the world and it may throw.
\<close>

record 'w octokit =
  repos_listBranches :: "js_string option \<Rightarrow> js_string option \<Rightarrow> nat \<Rightarrow> ('w, branch_data list) js"
  git_getRef :: "js_string option \<Rightarrow> js_string option \<Rightarrow> js_string \<Rightarrow> ('w, js_string) js"
  git_createRef ::
    "js_string option \<Rightarrow> js_string option \<Rightarrow> js_string \<Rightarrow> js_string \<Rightarrow> ('w, unit) js"
  pulls_create ::
    "js_string option \<Rightarrow> js_string option \<Rightarrow> js_string option \<Rightarrow> js_string \<Rightarrow>
     js_string option \<Rightarrow> js_string \<Rightarrow> ('w, pr_data) js"
  pulls_list :: "js_string option \<Rightarrow> js_string option \<Rightarrow> js_string \<Rightarrow> nat \<Rightarrow> ('w, pr_data list) js"
  repos_getContent ::
    "js_string option \<Rightarrow> js_string option \<Rightarrow> js_string option \<Rightarrow> js_string \<Rightarrow> ('w, file_data) js"
  repos_createOrUpdateFileContents ::
    "js_string option \<Rightarrow> js_string option \<Rightarrow> js_string option \<Rightarrow> js_string \<Rightarrow> js_string \<Rightarrow>
     js_string \<Rightarrow> js_string \<Rightarrow> ('w, unit) js"

text \<open>The properties \<open>filepath\<close>, \<open>content\<close> and \<open>message\<close> read off a parsed update request.\<close>

record update_info =
  u_filepath :: "js_string option"
  u_content :: "js_string option"
  u_message :: "js_string option"

text \<open>
  The functions of the platform that the tool calls and the repository does not define:
  the clock \<open>Date.now()\<close>; \<open>JSON.parse\<close> followed by the destructuring of its result;
  \<open>Buffer.from(x, 'base64').toString('utf-8')\<close>; \<open>Buffer.from(x).toString('base64')\<close>, which
  throws on \<open>undefined\<close>.
\<close>

record 'w node =
  Date_now :: "'w \<Rightarrow> nat"
  JSON_parse :: "js_string option \<Rightarrow> js_error + update_info"
  base64_decode :: "js_string \<Rightarrow> js_error + js_string"
  base64_encode :: "js_string option \<Rightarrow> js_error + js_string"

text \<open>
  The instance: \<open>this.repos\<close>, the array of configured repositories that the server
  passes to the constructor, and \<open>this.octokit\<close>.
\<close>

record 'w GithubTool =
  repos :: "repo_entry list"
  octokit :: "'w octokit"

text \<open>The argument object of \<open>GithubTool.run\<close>.\<close>

record github_args =
  g_repoName :: "js_string option"
  g_taskBranch :: "js_string option"
  g_taskDescription :: "js_string option"
  g_action :: "js_string option"

definition apostrophe :: js_string where
  "apostrophe = [0x27]"

definition memo :: js_string where
  "memo = [0xD83D, 0xDCDD]"

definition arrow :: js_string where
  "arrow = [0x2192]"

definition page :: js_string where
  "page = [0xD83D, 0xDCC4]"

text \<open>\<open>String.prototype.split\<close> with a separator of one code unit.\<close>

fun split_on :: "16 word \<Rightarrow> js_string \<Rightarrow> js_string list" where
  "split_on sep [] = [[]]"
| "split_on sep (c # cs) =
     (if c = sep then [] # split_on sep cs
      else (case split_on sep cs of [] \<Rightarrow> [[c]] | x # xs \<Rightarrow> (c # x) # xs))"

text \<open>An element of an array by index; \<open>undefined\<close> beyond its end.\<close>

fun element :: "'a list \<Rightarrow> nat \<Rightarrow> 'a option" where
  "element [] i = None"
| "element (x # xs) 0 = Some x"
| "element (x # xs) (Suc i) = element xs i"

definition listBranches ::
  "'w octokit \<Rightarrow> js_string option \<Rightarrow> js_string option \<Rightarrow> ('w, tool_result) js" where
  "listBranches oc owner repo =
     js_bind (repos_listBranches oc owner repo 50) (\<lambda>branches.
       js_return
         \<lparr>content_text =
            clipboard @ js '' Branches in '' @ str_of owner @ js ''/'' @ str_of repo @
            js '':\<newline>'' @
            join (js ''\<newline>'')
              (map (\<lambda>branch. bullet @ js '' '' @ b_name branch @
                      (if b_protected branch then js '' (protected)'' else []))
                 branches),
          isError = False\<rparr>)"

definition createBranch ::
  "'w octokit \<Rightarrow> js_string option \<Rightarrow> js_string option \<Rightarrow> js_string \<Rightarrow> js_string option \<Rightarrow>
   js_string option \<Rightarrow> ('w, tool_result) js" where
  "createBranch oc owner repo branchName baseBranch description =
     (let validation = validateBranchName branchName in
      if \<not> isValid validation then
        js_return
          \<lparr>content_text =
             cross_mark @ js '' Branch name validation failed: '' @ str_of (error validation) @
             js ''\<newline>\<newline>'' @ clipboard @ js '' Company Rules:\<newline>'' @
             str_of (rules validation),
           isError = True\<rparr>
      else
        js_bind (git_getRef oc owner repo (js ''heads/'' @ str_of baseBranch)) (\<lambda>sha.
        js_bind (git_createRef oc owner repo (js ''refs/heads/'' @ branchName) sha) (\<lambda>_.
          js_return
            \<lparr>content_text =
               check_mark @ js '' Created branch '' @ apostrophe @ branchName @ apostrophe @
               js '' from '' @ apostrophe @ str_of baseBranch @ apostrophe @ js '' in '' @
               str_of owner @ js ''/'' @ str_of repo @ js ''\<newline>'' @
               memo @ js '' Description: '' @ str_of description @ js ''\<newline>\<newline>'' @
               str_of (complianceMessage validation),
             isError = False\<rparr>)))"

definition generatePRBody :: "js_string option \<Rightarrow> js_string \<Rightarrow> js_string option \<Rightarrow> js_string" where
  \<open>generatePRBody title headBranch baseBranch =
     js ''## Description\<newline>'' @ str_of title @ js ''\<newline>\<newline>'' @
     js ''## Type of Change\<newline>'' @
     js ''- [ ] Bug fix (non-breaking change which fixes an issue)\<newline>'' @
     js ''- [ ] New feature (non-breaking change which adds functionality)\<newline>'' @
     js ''- [ ] Breaking change (fix or feature that would cause existing functionality to not work as expected)\<newline>'' @
     js ''- [ ] Documentation update\<newline>'' @
     js ''- [ ] Code refactoring\<newline>'' @
     js ''- [ ] Performance improvement\<newline>\<newline>'' @
     js ''## Testing\<newline>'' @
     js ''- [ ] I have tested these changes locally\<newline>'' @
     js ''- [ ] I have added tests that prove my fix is effective or that my feature works\<newline>'' @
     js ''- [ ] New and existing unit tests pass locally with my changes\<newline>\<newline>'' @
     js ''## Checklist\<newline>'' @
     js ''- [ ] My code follows the company coding standards\<newline>'' @
     js ''- [ ] I have performed a self-review of my own code\<newline>'' @
     js ''- [ ] I have commented my code, particularly in hard-to-understand areas\<newline>'' @
     js ''- [ ] I have made corresponding changes to the documentation\<newline>'' @
     js ''- [ ] My changes generate no new warnings\<newline>'' @
     js ''- [ ] Any dependent changes have been merged and published\<newline>\<newline>'' @
     js ''## Branch: `'' @ headBranch @ js ''` '' @ arrow @ js '' `'' @ str_of baseBranch @
     js ''`\<newline>\<newline>'' @
     js ''**Created by:** GitHub MCP Server\<newline>'' @
     js ''**Note:** Please ensure this PR follows all company guidelines before merging.''\<close>

definition getPRGuidelines :: js_string where
  \<open>getPRGuidelines =
     clipboard @ js '' **Next Steps - Company PR Guidelines:**\<newline>'' @
     bullet @ js '' Add reviewers from your team\<newline>'' @
     bullet @ js '' Link related issues using "Closes #123" or "Fixes #123"\<newline>'' @
     bullet @ js '' Ensure all CI checks pass\<newline>'' @
     bullet @ js '' Update documentation if needed\<newline>'' @
     bullet @ js '' Test thoroughly before requesting review\<newline>'' @
     bullet @ js '' Use "Squash and merge" for feature branches''\<close>

definition createPullRequest ::
  "'w octokit \<Rightarrow> js_string option \<Rightarrow> js_string option \<Rightarrow> js_string \<Rightarrow> js_string option \<Rightarrow>
   js_string option \<Rightarrow> ('w, tool_result) js" where
  "createPullRequest oc owner repo headBranch baseBranch title =
     (let prBody = generatePRBody title headBranch baseBranch in
      js_bind (pulls_create oc owner repo title headBranch baseBranch prBody) (\<lambda>pr.
        let guidelines = getPRGuidelines in
        js_return
          \<lparr>content_text =
             check_mark @ js '' Created PR #'' @ show_nat (pr_number pr) @ js '': '' @
             pr_html_url pr @ js ''\<newline>'' @ clipboard @ js '' '' @ headBranch @ js '' '' @
             arrow @ js '' '' @ str_of baseBranch @ js ''\<newline>\<newline>'' @ guidelines,
           isError = False\<rparr>))"

definition listPullRequests ::
  "'w octokit \<Rightarrow> js_string option \<Rightarrow> js_string option \<Rightarrow> ('w, tool_result) js" where
  "listPullRequests oc owner repo =
     js_bind (pulls_list oc owner repo (js ''open'') 20) (\<lambda>prs.
       js_return
         \<lparr>content_text =
            clipboard @ js '' Open Pull Requests in '' @ str_of owner @ js ''/'' @ str_of repo @
            js '':\<newline>'' @
            join (js ''\<newline>\<newline>'')
              (map (\<lambda>pr. bullet @ js '' #'' @ show_nat (pr_number pr) @ js '': '' @
                      pr_title pr @ js ''\<newline>  '' @ pr_head_ref pr @ js '' '' @ arrow @
                      js '' '' @ pr_base_ref pr @ js '' ('' @ pr_html_url pr @ js '')'')
                 prs),
          isError = False\<rparr>)"

text \<open>The default value \<open>'develop'\<close> of the parameter \<open>branch\<close> applies to \<open>undefined\<close>.\<close>

definition getFileContent ::
  "'w node \<Rightarrow> 'w octokit \<Rightarrow> js_string option \<Rightarrow> js_string option \<Rightarrow> js_string option \<Rightarrow>
   js_string option \<Rightarrow> ('w, tool_result) js" where
  \<open>getFileContent nd oc owner repo filepath branch_arg =
     (let branch = (case branch_arg of None \<Rightarrow> js ''develop'' | Some b \<Rightarrow> b) in
      js_try_catch
        (js_bind (repos_getContent oc owner repo filepath branch) (\<lambda>file.
         js_bind (js_of_sum (base64_decode nd (f_content file))) (\<lambda>content.
           js_return
             \<lparr>content_text =
                page @ js '' File: '' @ str_of filepath @ js '' ('' @ branch @
                js '')\<newline>```\<newline>'' @ content @ js ''\<newline>```'',
              isError = False\<rparr>)))
        (\<lambda>error.
           js_return
             \<lparr>content_text =
                cross_mark @ js '' File not found: '' @ str_of filepath @ js '' in '' @
                str_of owner @ js ''/'' @ str_of repo @ js '':'' @ branch,
              isError = True\<rparr>))\<close>

definition updateFile ::
  "'w node \<Rightarrow> 'w octokit \<Rightarrow> js_string option \<Rightarrow> js_string option \<Rightarrow> js_string option \<Rightarrow>
   js_string \<Rightarrow> ('w, tool_result) js" where
  "updateFile nd oc owner repo updateInfo branch =
     js_bind (js_of_sum (JSON_parse nd updateInfo)) (\<lambda>info.
       let filepath = u_filepath info; content = u_content info; message = u_message info in
       js_try_catch
         (js_bind (repos_getContent oc owner repo filepath branch) (\<lambda>currentFile.
          js_bind (js_of_sum (base64_encode nd content)) (\<lambda>encoded.
          js_bind
            (repos_createOrUpdateFileContents oc owner repo filepath
               (if truthy message then str_of message else js ''Update '' @ str_of filepath)
               encoded (f_sha currentFile) branch) (\<lambda>_.
            js_return
              \<lparr>content_text =
                 check_mark @ js '' Updated '' @ str_of filepath @ js '' in branch '' @
                 apostrophe @ branch @ apostrophe @ js '' of '' @ str_of owner @ js ''/'' @
                 str_of repo,
               isError = False\<rparr>))))
         (\<lambda>error.
            js_return
              \<lparr>content_text =
                 cross_mark @ js '' Failed to update '' @ str_of filepath @ js '': '' @
                 error_message error,
               isError = True\<rparr>))"

definition listRepositories :: "'w GithubTool \<Rightarrow> repo_entry list" where
  "listRepositories this =
     map (\<lambda>rp. \<lparr>r_name = r_name rp, r_repo = r_repo rp, r_defaultBranch = r_defaultBranch rp\<rparr>)
       (repos this)"

definition listRepositoriesFormatted :: "'w GithubTool \<Rightarrow> tool_result" where
  "listRepositoriesFormatted this =
     (let repos = listRepositories this in
      \<lparr>content_text =
         clipboard @ js '' Configured Repositories:\<newline>'' @
         join (js ''\<newline>\<newline>'')
           (map (\<lambda>rp. bullet @ js '' '' @ r_name rp @ js ''\<newline>  GitHub: '' @ r_repo rp @
                   js ''\<newline>  Default Branch: '' @ str_of (r_defaultBranch rp))
              repos),
       isError = False\<rparr>)"

text \<open>
  What the destructuring of a parameter throws when the call has no argument object: a
  \<open>TypeError\<close>, with the message of the engine.
\<close>

definition destructuring_error :: js_error where
  "destructuring_error =
     Error (js ''Cannot destructure property '' @ apostrophe @ js ''repoName'' @ apostrophe @
            js '' of '' @ apostrophe @ js ''undefined'' @ apostrophe @
            js '' as it is undefined.'')"

text \<open>
  \<open>GithubTool.run\<close>.  The argument is \<open>None\<close> when the method is called without an argument
  object, as the server does for a tool call without arguments.  The parameter list
  destructures the argument before the body is entered, so outside \<open>try\<close>.  The default
  \<open>'create_branch'\<close> of \<open>action\<close> applies to \<open>undefined\<close>.  The whole body is inside \<open>try\<close>;
  the handler returns a result with \<open>isError: true\<close>.
\<close>

definition GithubTool_run ::
  "'w node \<Rightarrow> 'w GithubTool \<Rightarrow> github_args option \<Rightarrow> ('w, tool_result) js" where
  "GithubTool_run nd this arg =
     (case arg of
        None \<Rightarrow> js_throw destructuring_error
      | Some args \<Rightarrow>
     (let repoName = g_repoName args; taskBranch = g_taskBranch args;
          taskDescription = g_taskDescription args;
          action = (case g_action args of None \<Rightarrow> js ''create_branch'' | Some a \<Rightarrow> a)
      in
      js_try_catch
        (case find (\<lambda>r. Some (r_name r) = repoName \<or> Some (r_repo r) = repoName) (repos this) of
           None \<Rightarrow>
             js_throw
               (Error (js ''Repository '' @ apostrophe @ str_of repoName @ apostrophe @
                       js '' not found. Available repos: '' @
                       join (js '', '') (map (\<lambda>r. r_name r) (repos this))))
         | Some targetRepo \<Rightarrow>
             (let parts = split_on (of_char CHR ''/'') (r_repo targetRepo);
                  owner = element parts 0; repo = element parts 1
              in
              (\<lambda>w.
                 (let branchName =
                        (if truthy taskBranch then str_of taskBranch
                         else js ''task-'' @ show_nat (Date_now nd w))
                  in
                  if action = js ''list_repos'' then
                    js_return (listRepositoriesFormatted this)
                  else if action = js ''list_branches'' then
                    listBranches (octokit this) owner repo
                  else if action = js ''create_branch'' then
                    createBranch (octokit this) owner repo branchName
                      (r_defaultBranch targetRepo) taskDescription
                  else if action = js ''create_pr'' then
                    createPullRequest (octokit this) owner repo branchName
                      (r_defaultBranch targetRepo) taskDescription
                  else if action = js ''list_prs'' then
                    listPullRequests (octokit this) owner repo
                  else if action = js ''get_file'' then
                    getFileContent nd (octokit this) owner repo taskDescription
                      (r_defaultBranch targetRepo)
                  else if action = js ''update_file'' then
                    updateFile nd (octokit this) owner repo taskDescription branchName
                  else
                    js_throw (Error (js ''Unknown action: '' @ action))) w)))
        (\<lambda>error.
           js_return
             \<lparr>content_text = cross_mark @ js '' Error: '' @ error_message error,
              isError = True\<rparr>)))"

section \<open>The task-board adapter: \<open>TrelloTool\<close>\<close>

text \<open>The argument object of \<open>TrelloTool.run\<close>: the action and the properties of \<open>args\<close>.\<close>

record trello_args =
  t_action :: "js_string option"
  t_title :: "js_string option"
  t_description :: "js_string option"
  t_listId :: "js_string option"
  t_boardId :: "js_string option"
  t_labels :: "js_string list option"
  t_dueDate :: "js_string option"
  t_members :: "js_string list option"
  t_cardId :: "js_string option"
  t_closed :: "bool option"
  t_comment :: "js_string option"

text \<open>An object literal sets some properties; the others are \<open>undefined\<close>.\<close>

definition no_args :: trello_args where
  "no_args =
     \<lparr>t_action = None, t_title = None, t_description = None, t_listId = None,
      t_boardId = None, t_labels = None, t_dueDate = None, t_members = None,
      t_cardId = None, t_closed = None, t_comment = None\<rparr>"

text \<open>
  The properties the tool reads off an object of a response of the Trello client.  A
  number (\<open>pos\<close>) and a date (\<open>new Date(data.date).toLocaleString()\<close>) stand as the text
  they print as; \<open>i_labels\<close> are the names of the labels, \<open>i_list_name\<close> is \<open>list?.name\<close>,
  \<open>i_text\<close> is \<open>data.text\<close> and \<open>i_author\<close> is \<open>memberCreator.fullName\<close>.
\<close>

record trello_item =
  i_id :: js_string
  i_name :: js_string
  i_url :: js_string
  i_closed :: bool
  i_desc :: "js_string option"
  i_due :: "js_string option"
  i_labels :: "js_string list option"
  i_pos :: js_string
  i_list_name :: "js_string option"
  i_text :: js_string
  i_author :: js_string
  i_date :: js_string

text \<open>The body of a request: \<open>cardData\<close>, \<open>updateData\<close>, \<open>{ idList }\<close> or \<open>{ text }\<close>.\<close>

record trello_body =
  b_name :: "js_string option"
  b_desc :: "js_string option"
  b_idList :: "js_string option"
  b_due :: "js_string option"
  b_idLabels :: "js_string list option"
  b_idMembers :: "js_string list option"
  b_closed :: "bool option"
  b_text :: "js_string option"

definition no_body :: trello_body where
  "no_body =
     \<lparr>b_name = None, b_desc = None, b_idList = None, b_due = None, b_idLabels = None,
      b_idMembers = None, b_closed = None, b_text = None\<rparr>"

text \<open>
  The client \<open>this.trello\<close>: a callback with an error is a rejected promise, a callback
  with data a fulfilled one.
\<close>

record 'w trello_client =
  client_get :: "js_string \<Rightarrow> ('w, trello_item list) js"
  client_post :: "js_string \<Rightarrow> trello_body \<Rightarrow> ('w, trello_item) js"
  client_put :: "js_string \<Rightarrow> trello_body \<Rightarrow> ('w, trello_item) js"

record 'w TrelloTool =
  client :: "'w trello_client"
  defaultBoardId :: "js_string option"
  defaultListId :: "js_string option"

definition pin :: js_string where
  "pin = [0xD83D, 0xDCCC]"

definition link_sign :: js_string where
  "link_sign = [0xD83D, 0xDD17]"

definition calendar :: js_string where
  "calendar = [0xD83D, 0xDCC5]"

definition label_sign :: js_string where
  "label_sign = [0xD83C, 0xDFF7, 0xFE0F]"

definition joker :: js_string where
  "joker = [0xD83C, 0xDCCF]"

definition speech :: js_string where
  "speech = [0xD83D, 0xDCAC]"

definition bust :: js_string where
  "bust = [0xD83D, 0xDC64]"

text \<open>\<open>v || d\<close> for an optional string \<open>v\<close>, as a string and as an optional string.\<close>

definition or_text :: "js_string option \<Rightarrow> js_string \<Rightarrow> js_string" where
  "or_text v d = (if truthy v then str_of v else d)"

definition or_else :: "js_string option \<Rightarrow> js_string option \<Rightarrow> js_string option" where
  "or_else v d = (if truthy v then v else d)"

definition status_text :: "bool \<Rightarrow> js_string" where
  "status_text closed = (if closed then js ''Closed'' else js ''Open'')"

text \<open>\<open>labels?.join(', ') || 'None'\<close> on the names of the labels.\<close>

definition labels_text :: "js_string list option \<Rightarrow> js_string" where
  "labels_text ls =
     (case ls of None \<Rightarrow> js ''None''
      | Some names \<Rightarrow> (if join (js '', '') names = [] then js ''None'' else join (js '', '') names))"

definition listBoards :: "'w TrelloTool \<Rightarrow> ('w, tool_result) js" where
  "listBoards this =
     js_bind (client_get (client this) (js ''/1/members/me/boards'')) (\<lambda>data.
       js_return
         \<lparr>content_text =
            clipboard @ js '' **Trello Boards:**\<newline>\<newline>'' @
            join (js ''\<newline>\<newline>'')
              (map (\<lambda>board. bullet @ js '' **'' @ i_name board @ js ''** (ID: '' @ i_id board @
                      js '')\<newline>  URL: '' @ i_url board @ js ''\<newline>  Status: '' @
                      status_text (i_closed board))
                 data),
          isError = False\<rparr>)"

definition listLists :: "'w TrelloTool \<Rightarrow> js_string option \<Rightarrow> ('w, tool_result) js" where
  "listLists this boardId =
     (let targetBoardId = or_else boardId (defaultBoardId this) in
      if \<not> truthy targetBoardId then
        js_throw (Error (js ''Board ID is required. Use list_boards to find board IDs.''))
      else
        js_bind (client_get (client this) (js ''/1/boards/'' @ str_of targetBoardId @ js ''/lists''))
          (\<lambda>data.
            js_return
              \<lparr>content_text =
                 memo @ js '' **Lists in Board:**\<newline>\<newline>'' @
                 join (js ''\<newline>\<newline>'')
                   (map (\<lambda>list. bullet @ js '' **'' @ i_name list @ js ''** (ID: '' @
                           i_id list @ js '')\<newline>  Status: '' @
                           status_text (i_closed list) @ js ''\<newline>  Position: '' @
                           i_pos list)
                      data),
               isError = False\<rparr>))"

definition createCard :: "'w TrelloTool \<Rightarrow> trello_args \<Rightarrow> ('w, tool_result) js" where
  "createCard this args =
     (let targetListId = or_else (t_listId args) (defaultListId this) in
      if \<not> truthy targetListId then
        js_throw (Error (js ''List ID is required. Use list_lists to find list IDs.''))
      else
        (let cardData =
               no_body\<lparr>b_name := t_title args, b_desc := Some (or_text (t_description args) []),
                 b_idList := targetListId,
                 b_due := (if truthy (t_dueDate args) then t_dueDate args else None),
                 b_idLabels := t_labels args, b_idMembers := t_members args\<rparr>
         in
         js_bind (client_post (client this) (js ''/1/cards'') cardData) (\<lambda>data.
           js_return
             \<lparr>content_text =
                check_mark @ js '' **Trello Card Created Successfully!**\<newline>\<newline>'' @
                pin @ js '' **Title:** '' @ i_name data @ js ''\<newline>'' @
                memo @ js '' **Description:** '' @ or_text (i_desc data) (js ''No description'') @
                js ''\<newline>'' @
                link_sign @ js '' **URL:** '' @ i_url data @ js ''\<newline>'' @
                calendar @ js '' **Due Date:** '' @ or_text (i_due data) (js ''Not set'') @
                js ''\<newline>'' @
                label_sign @ js '' **Labels:** '' @ labels_text (i_labels data),
              isError = False\<rparr>)))"

definition listCards :: "'w TrelloTool \<Rightarrow> js_string option \<Rightarrow> ('w, tool_result) js" where
  "listCards this listId =
     (let targetListId = or_else listId (defaultListId this) in
      if \<not> truthy targetListId then
        js_throw (Error (js ''List ID is required. Use list_lists to find list IDs.''))
      else
        js_bind (client_get (client this) (js ''/1/lists/'' @ str_of targetListId @ js ''/cards''))
          (\<lambda>data.
            js_return
              \<lparr>content_text =
                 joker @ js '' **Cards in List:**\<newline>\<newline>'' @
                 join (js ''\<newline>\<newline>'')
                   (map (\<lambda>card. bullet @ js '' **'' @ i_name card @ js ''** (ID: '' @
                           i_id card @ js '')\<newline>'' @
                           js ''  Description: '' @ or_text (i_desc card) (js ''No description'') @
                           js ''\<newline>'' @
                           js ''  Due: '' @ or_text (i_due card) (js ''Not set'') @ js ''\<newline>'' @
                           js ''  Labels: '' @ labels_text (i_labels card) @ js ''\<newline>'' @
                           js ''  Status: '' @ status_text (i_closed card) @ js ''\<newline>'' @
                           js ''  URL: '' @ i_url card)
                      data),
               isError = False\<rparr>))"

definition updateCard :: "'w TrelloTool \<Rightarrow> trello_args \<Rightarrow> ('w, tool_result) js" where
  "updateCard this args =
     (if \<not> truthy (t_cardId args) then
        js_throw (Error (js ''Card ID is required for updating.''))
      else
        (let updateData =
               no_body\<lparr>b_name := t_title args, b_desc := t_description args,
                 b_due := t_dueDate args, b_closed := t_closed args\<rparr>
         in
         js_bind (client_put (client this) (js ''/1/cards/'' @ str_of (t_cardId args)) updateData)
           (\<lambda>data.
             js_return
               \<lparr>content_text =
                  check_mark @ js '' **Card Updated Successfully!**\<newline>\<newline>'' @
                  pin @ js '' **Title:** '' @ i_name data @ js ''\<newline>'' @
                  memo @ js '' **Description:** '' @
                  or_text (i_desc data) (js ''No description'') @ js ''\<newline>'' @
                  link_sign @ js '' **URL:** '' @ i_url data @ js ''\<newline>'' @
                  calendar @ js '' **Due Date:** '' @ or_text (i_due data) (js ''Not set''),
                isError = False\<rparr>)))"

definition moveCard :: "'w TrelloTool \<Rightarrow> trello_args \<Rightarrow> ('w, tool_result) js" where
  "moveCard this args =
     (if \<not> truthy (t_cardId args) \<or> \<not> truthy (t_listId args) then
        js_throw (Error (js ''Both Card ID and List ID are required for moving.''))
      else
        js_bind
          (client_put (client this) (js ''/1/cards/'' @ str_of (t_cardId args))
             (no_body\<lparr>b_idList := t_listId args\<rparr>))
          (\<lambda>data.
            js_return
              \<lparr>content_text =
                 check_mark @ js '' **Card Moved Successfully!**\<newline>\<newline>'' @
                 pin @ js '' **Card:** '' @ i_name data @ js ''\<newline>'' @
                 memo @ js '' **New List:** '' @ or_text (i_list_name data) (js ''Unknown'') @
                 js ''\<newline>'' @
                 link_sign @ js '' **URL:** '' @ i_url data,
               isError = False\<rparr>))"

definition addComment :: "'w TrelloTool \<Rightarrow> trello_args \<Rightarrow> ('w, tool_result) js" where
  "addComment this args =
     (if \<not> truthy (t_cardId args) \<or> \<not> truthy (t_comment args) then
        js_throw (Error (js ''Both Card ID and comment text are required.''))
      else
        js_bind
          (client_post (client this)
             (js ''/1/cards/'' @ str_of (t_cardId args) @ js ''/actions/comments'')
             (no_body\<lparr>b_text := t_comment args\<rparr>))
          (\<lambda>data.
            js_return
              \<lparr>content_text =
                 speech @ js '' **Comment Added Successfully!**\<newline>\<newline>'' @
                 memo @ js '' **Comment:** '' @ i_text data @ js ''\<newline>'' @
                 bust @ js '' **Author:** '' @ i_author data @ js ''\<newline>'' @
                 calendar @ js '' **Date:** '' @ i_date data,
               isError = False\<rparr>))"

text \<open>
  \<open>TrelloTool.run\<close>: the handler logs the error and throws a new one; nothing is returned
  from it.
\<close>

definition TrelloTool_run :: "'w TrelloTool \<Rightarrow> trello_args \<Rightarrow> ('w, tool_result) js" where
  "TrelloTool_run this args =
     (let action = t_action args in
      js_try_catch
        (if action = Some (js ''list_boards'') then listBoards this
         else if action = Some (js ''list_lists'') then listLists this (t_boardId args)
         else if action = Some (js ''create_card'') then createCard this args
         else if action = Some (js ''list_cards'') then listCards this (t_listId args)
         else if action = Some (js ''update_card'') then updateCard this args
         else if action = Some (js ''move_card'') then moveCard this args
         else if action = Some (js ''add_comment'') then addComment this args
         else js_throw (Error (js ''Unknown Trello action: '' @ str_of action)))
        (\<lambda>error. js_throw (Error (js ''Trello operation failed: '' @ error_message error))))"

section \<open>The workflows: \<open>WorkflowIntegration\<close>\<close>

text \<open>
  The instance holds the two tools; a workflow calls their method \<open>run\<close> and nothing else
  of them.
\<close>

record 'w WorkflowIntegration =
  github :: "github_args \<Rightarrow> ('w, tool_result) js"
  trello :: "trello_args \<Rightarrow> ('w, tool_result) js"

text \<open>
  The parameter object of a workflow, with the properties the three methods read;
  \<open>handleWorkflow\<close> always passes an object, and the schema of the tool has the
  identifiers as strings.
\<close>

record params =
  p_repoName :: "js_string option"
  p_branchName :: "js_string option"
  p_taskTitle :: "js_string option"
  p_taskDescription :: "js_string option"
  p_trelloListId :: "js_string option"
  p_dueDate :: "js_string option"
  p_prTitle :: "js_string option"
  p_prDescription :: "js_string option"
  p_cardId :: "js_string option"
  p_reviewListId :: "js_string option"
  p_deleteBranch :: "bool option"

text \<open>An element of the array \<open>results\<close>, and the object a workflow returns.\<close>

record ledger_entry =
  e_type :: js_string
  e_action :: js_string
  e_result :: tool_result

record outcome =
  success :: bool
  message :: js_string
  results :: "ledger_entry list"

text \<open>
  The array \<open>results\<close> is a local variable that the body of \<open>try\<close> extends and the handler
  reads: inside a method the state is the world together with the array.
\<close>

definition with_results :: "('w \<times> ledger_entry list, 'a) js \<Rightarrow> ('w, 'a) js" where
  "with_results m = (\<lambda>w. case m (w, []) of (r, (w', rs)) \<Rightarrow> (r, w'))"

definition await :: "('w, 'a) js \<Rightarrow> ('w \<times> ledger_entry list, 'a) js" where
  "await m = (\<lambda>(w, rs). case m w of (r, w') \<Rightarrow> (r, (w', rs)))"

definition results_push :: "ledger_entry \<Rightarrow> ('w \<times> ledger_entry list, unit) js" where
  "results_push e = (\<lambda>(w, rs). (Inr (), (w, rs @ [e])))"

definition results_get :: "('w \<times> ledger_entry list, ledger_entry list) js" where
  "results_get = (\<lambda>(w, rs). (Inr rs, (w, rs)))"

definition folder :: js_string where
  "folder = [0xD83D, 0xDCC1]"

definition magnifier :: js_string where
  "magnifier = [0xD83D, 0xDD0D]"

definition herb :: js_string where
  "herb = [0xD83C, 0xDF3F]"

definition rocket :: js_string where
  "rocket = [0xD83D, 0xDE80]"

definition party :: js_string where
  "party = [0xD83C, 0xDF89]"

subsection \<open>\<open>createTaskWithCard\<close>\<close>

definition create_branch_args :: "params \<Rightarrow> github_args" where
  "create_branch_args p =
     \<lparr>g_repoName = p_repoName p, g_taskBranch = p_branchName p,
      g_taskDescription = p_taskTitle p, g_action = Some (js ''create_branch'')\<rparr>"

definition cardDescription :: "params \<Rightarrow> js_string" where
  "cardDescription p =
     str_of (p_taskDescription p) @ js ''\<newline>\<newline>'' @ link_sign @
     js '' **GitHub Branch:** '' @ str_of (p_branchName p) @ js ''\<newline>'' @ folder @
     js '' **Repository:** '' @ str_of (p_repoName p)"

definition create_card_args :: "params \<Rightarrow> trello_args" where
  "create_card_args p =
     no_args\<lparr>t_action := Some (js ''create_card''), t_title := p_taskTitle p,
       t_description := Some (cardDescription p), t_listId := p_trelloListId p,
       t_dueDate := p_dueDate p\<rparr>"

definition createTaskWithCard :: "'w WorkflowIntegration \<Rightarrow> params \<Rightarrow> ('w, outcome) js" where
  "createTaskWithCard this p =
     with_results
       (js_try_catch
          (js_bind (await (github this (create_branch_args p))) (\<lambda>branchResult.
           js_bind (results_push
              \<lparr>e_type = js ''github'', e_action = js ''branch_created'',
               e_result = branchResult\<rparr>) (\<lambda>_.
           js_bind (await (trello this (create_card_args p))) (\<lambda>cardResult.
           js_bind (results_push
              \<lparr>e_type = js ''trello'', e_action = js ''card_created'',
               e_result = cardResult\<rparr>) (\<lambda>_.
           js_bind results_get (\<lambda>results.
             js_return
               \<lparr>success = True, message = js ''Task workflow completed successfully!'',
                results = results\<rparr>))))))
          (\<lambda>error.
             js_bind results_get (\<lambda>results.
               js_return
                 \<lparr>success = False, message = js ''Workflow failed: '' @ error_message error,
                  results = results\<rparr>)))"

subsection \<open>\<open>createPRAndUpdateCard\<close>\<close>

definition create_pr_args :: "params \<Rightarrow> github_args" where
  "create_pr_args p =
     \<lparr>g_repoName = p_repoName p, g_taskBranch = p_branchName p,
      g_taskDescription = p_prTitle p, g_action = Some (js ''create_pr'')\<rparr>"

definition move_card_args :: "params \<Rightarrow> trello_args" where
  "move_card_args p =
     no_args\<lparr>t_action := Some (js ''move_card''), t_cardId := p_cardId p,
       t_listId := p_reviewListId p\<rparr>"

definition pr_comment :: "params \<Rightarrow> js_string" where
  "pr_comment p =
     magnifier @ js '' **Pull Request Created!**\<newline>\<newline>'' @ memo @
     js '' **Title:** '' @ str_of (p_prTitle p) @ js ''\<newline>'' @ herb @
     js '' **Branch:** '' @ str_of (p_branchName p) @ js ''\<newline>'' @ folder @
     js '' **Repository:** '' @ str_of (p_repoName p) @
     js ''\<newline>\<newline>Ready for code review! '' @ rocket"

definition pr_comment_args :: "params \<Rightarrow> trello_args" where
  "pr_comment_args p =
     no_args\<lparr>t_action := Some (js ''add_comment''), t_cardId := p_cardId p,
       t_comment := Some (pr_comment p)\<rparr>"

definition createPRAndUpdateCard :: "'w WorkflowIntegration \<Rightarrow> params \<Rightarrow> ('w, outcome) js" where
  "createPRAndUpdateCard this p =
     with_results
       (js_try_catch
          (js_bind (await (github this (create_pr_args p))) (\<lambda>prResult.
           js_bind (results_push
              \<lparr>e_type = js ''github'', e_action = js ''pr_created'', e_result = prResult\<rparr>) (\<lambda>_.
           js_bind
             (if truthy (p_cardId p) \<and> truthy (p_reviewListId p) then
                js_bind (await (trello this (move_card_args p))) (\<lambda>moveResult.
                js_bind (results_push
                   \<lparr>e_type = js ''trello'', e_action = js ''card_moved'',
                    e_result = moveResult\<rparr>) (\<lambda>_.
                js_bind (await (trello this (pr_comment_args p))) (\<lambda>commentResult.
                  results_push
                    \<lparr>e_type = js ''trello'', e_action = js ''comment_added'',
                     e_result = commentResult\<rparr>)))
              else js_return ()) (\<lambda>_.
           js_bind results_get (\<lambda>results.
             js_return
               \<lparr>success = True, message = js ''PR workflow completed successfully!'',
                results = results\<rparr>)))))
          (\<lambda>error.
             js_bind results_get (\<lambda>results.
               js_return
                 \<lparr>success = False, message = js ''PR workflow failed: '' @ error_message error,
                  results = results\<rparr>)))"

subsection \<open>\<open>completeTask\<close>\<close>

definition close_card_args :: "params \<Rightarrow> trello_args" where
  "close_card_args p =
     no_args\<lparr>t_action := Some (js ''update_card''), t_cardId := p_cardId p,
       t_closed := Some True\<rparr>"

definition completion_comment :: "params \<Rightarrow> js_string" where
  "completion_comment p =
     check_mark @ js '' **Task Completed!**\<newline>\<newline>'' @ party @
     js '' This task has been successfully completed and the card is now closed.\<newline>'' @
     folder @ js '' Repository: '' @ str_of (p_repoName p) @ js ''\<newline>'' @ herb @
     js '' Branch: '' @ str_of (p_branchName p)"

definition completion_comment_args :: "params \<Rightarrow> trello_args" where
  "completion_comment_args p =
     no_args\<lparr>t_action := Some (js ''add_comment''), t_cardId := p_cardId p,
       t_comment := Some (completion_comment p)\<rparr>"

text \<open>The parameter \<open>deleteBranch\<close> (default \<open>false\<close>) is bound and never read.\<close>

definition completeTask :: "'w WorkflowIntegration \<Rightarrow> params \<Rightarrow> ('w, outcome) js" where
  "completeTask this p =
     (let deleteBranch = (case p_deleteBranch p of None \<Rightarrow> False | Some b \<Rightarrow> b) in
      with_results
        (js_try_catch
           (js_bind (await (trello this (close_card_args p))) (\<lambda>updateResult.
            js_bind (results_push
               \<lparr>e_type = js ''trello'', e_action = js ''card_completed'',
                e_result = updateResult\<rparr>) (\<lambda>_.
            js_bind (await (trello this (completion_comment_args p))) (\<lambda>commentResult.
            js_bind (results_push
               \<lparr>e_type = js ''trello'', e_action = js ''completion_comment_added'',
                e_result = commentResult\<rparr>) (\<lambda>_.
            js_bind results_get (\<lambda>results.
              js_return
                \<lparr>success = True, message = js ''Task completion workflow finished!'',
                 results = results\<rparr>))))))
           (\<lambda>error.
              js_bind results_get (\<lambda>results.
                js_return
                  \<lparr>success = False,
                   message = js ''Completion workflow failed: '' @ error_message error,
                   results = results\<rparr>))))"

subsection \<open>The three workflows behind one entry point\<close>

text \<open>
  \<open>handleWorkflow\<close> selects the method by the action tag; these are the three cases of its
  \<open>switch\<close>.
\<close>

datatype workflow_action = create_task_with_card | create_pr_and_update_card | complete_task

fun run_workflow :: "workflow_action \<Rightarrow> 'w WorkflowIntegration \<Rightarrow> params \<Rightarrow> ('w, outcome) js" where
  "run_workflow create_task_with_card workflowTool p = createTaskWithCard workflowTool p"
| "run_workflow create_pr_and_update_card workflowTool p = createPRAndUpdateCard workflowTool p"
| "run_workflow complete_task workflowTool p = completeTask workflowTool p"

section \<open>Observing the calls of a run\<close>

text \<open>
  To speak about which adapter calls a run makes, the tools are wrapped so that every call
  of \<open>run\<close> is written to a log, with its argument object and with what it returned or
  threw.  The wrapped tools answer as the tools themselves do.
\<close>

datatype event =
  GithubCall github_args "js_error + tool_result"
| TrelloCall trello_args "js_error + tool_result"

definition observed :: "'w WorkflowIntegration \<Rightarrow> ('w \<times> event list) WorkflowIntegration" where
  "observed this =
     \<lparr>github = (\<lambda>a (w, log). case github this a w of (r, w') \<Rightarrow> (r, (w', log @ [GithubCall a r]))),
      trello = (\<lambda>a (w, log). case trello this a w of (r, w') \<Rightarrow> (r, (w', log @ [TrelloCall a r])))\<rparr>"

definition calls :: "workflow_action \<Rightarrow> 'w WorkflowIntegration \<Rightarrow> params \<Rightarrow> 'w \<Rightarrow> event list" where
  "calls k this p w = snd (snd (run_workflow k (observed this) p (w, [])))"

fun response :: "event \<Rightarrow> js_error + tool_result" where
  "response (GithubCall a r) = r"
| "response (TrelloCall a r) = r"

fun is_github_call :: "event \<Rightarrow> bool" where
  "is_github_call (GithubCall a r) = True"
| "is_github_call (TrelloCall a r) = False"

fun threw :: "event \<Rightarrow> bool" where
  "threw ev = (case response ev of Inl e \<Rightarrow> True | Inr r \<Rightarrow> False)"

text \<open>The request of a call, without its answer.\<close>

datatype request = GithubRequest github_args | TrelloRequest trello_args

fun request_of :: "event \<Rightarrow> request" where
  "request_of (GithubCall a r) = GithubRequest a"
| "request_of (TrelloCall a r) = TrelloRequest a"

fun is_trello_action :: "js_string \<Rightarrow> event \<Rightarrow> bool" where
  "is_trello_action name (GithubCall a r) = False"
| "is_trello_action name (TrelloCall a r) = (t_action a = Some name)"

text \<open>What the calls of a log returned, and what they threw, in order.\<close>

fun returned :: "event list \<Rightarrow> tool_result list" where
  "returned [] = []"
| "returned (ev # evs) =
     (case response ev of Inl e \<Rightarrow> returned evs | Inr r \<Rightarrow> r # returned evs)"


text \<open>
  The remote calls of \<open>GithubTool.run\<close> are observed in the same way: every call of the
  Octokit client appends to a log whether it threw.
\<close>

definition watch :: "('w, 'a) js \<Rightarrow> ('w \<times> bool list, 'a) js" where
  "watch m = (\<lambda>(w, log). case m w of (r, w') \<Rightarrow> (r, (w', log @ [isl r])))"

definition observed_octokit :: "'w octokit \<Rightarrow> ('w \<times> bool list) octokit" where
  "observed_octokit oc =
     \<lparr>repos_listBranches = (\<lambda>owner repo n. watch (repos_listBranches oc owner repo n)),
      git_getRef = (\<lambda>owner repo ref. watch (git_getRef oc owner repo ref)),
      git_createRef = (\<lambda>owner repo ref sha. watch (git_createRef oc owner repo ref sha)),
      pulls_create = (\<lambda>owner repo title head base body.
         watch (pulls_create oc owner repo title head base body)),
      pulls_list = (\<lambda>owner repo state n. watch (pulls_list oc owner repo state n)),
      repos_getContent = (\<lambda>owner repo path ref.
         watch (repos_getContent oc owner repo path ref)),
      repos_createOrUpdateFileContents = (\<lambda>owner repo path msg content sha branch.
         watch (repos_createOrUpdateFileContents oc owner repo path msg content sha branch))\<rparr>"

definition observed_node :: "'w node \<Rightarrow> ('w \<times> bool list) node" where
  "observed_node nd =
     \<lparr>Date_now = (\<lambda>(w, log). Date_now nd w), JSON_parse = JSON_parse nd,
      base64_decode = base64_decode nd, base64_encode = base64_encode nd\<rparr>"

definition remote_run ::
  "'w node \<Rightarrow> 'w GithubTool \<Rightarrow> github_args \<Rightarrow> ('w \<times> bool list, tool_result) js" where
  "remote_run nd this args =
     GithubTool_run (observed_node nd)
       \<lparr>repos = repos this, octokit = observed_octokit (octokit this)\<rparr> (Some args)"

definition remote_failures ::
  "'w node \<Rightarrow> 'w GithubTool \<Rightarrow> github_args \<Rightarrow> 'w \<Rightarrow> bool list" where
  "remote_failures nd this args w = snd (snd (remote_run nd this args (w, [])))"

text \<open>An observed computation answers as the computation it observes.\<close>

definition mirrors :: "('w \<times> 'l, 'a) js \<Rightarrow> ('w, 'a) js \<Rightarrow> bool" where
  "mirrors m' m =
     (\<forall>w l. fst (m' (w, l)) = fst (m w) \<and> fst (snd (m' (w, l))) = snd (m w))"

text \<open>
  A result that is returned after a remote call threw carries \<open>isError\<close>, unless a call
  had thrown before.
\<close>

definition flagged :: "bool list \<Rightarrow> (js_error + tool_result) \<Rightarrow> bool list \<Rightarrow> bool" where
  "flagged log res log' =
     (case res of Inl e \<Rightarrow> True
      | Inr r \<Rightarrow> True \<in> set log' \<longrightarrow> True \<in> set log \<or> isError r)"

section \<open>The vocabulary of the specification\<close>

text \<open>
  The step specification of each workflow, in the words of the specification: create
  branch then create card; create pull request, then move card and add comment when both
  a card and a review list are given; close card then add comment.
\<close>

fun step_sequence :: "workflow_action \<Rightarrow> params \<Rightarrow> request list" where
  "step_sequence create_task_with_card p =
     [GithubRequest (create_branch_args p), TrelloRequest (create_card_args p)]"
| "step_sequence create_pr_and_update_card p =
     GithubRequest (create_pr_args p) #
     (if truthy (p_cardId p) \<and> truthy (p_reviewListId p)
      then [TrelloRequest (move_card_args p), TrelloRequest (pr_comment_args p)] else [])"
| "step_sequence complete_task p =
     [TrelloRequest (close_card_args p), TrelloRequest (completion_comment_args p)]"


text \<open>The action tags that \<open>GithubTool.run\<close> knows.\<close>

definition actions :: "js_string list" where
  "actions =
     [js ''list_repos'', js ''list_branches'', js ''create_branch'', js ''create_pr'',
      js ''list_prs'', js ''get_file'', js ''update_file'']"

text \<open>
  Two adapters over two worlds give identical responses when, from related worlds, each
  call answers the same and leaves related worlds.
\<close>

definition agree :: "('w \<Rightarrow> 'v \<Rightarrow> bool) \<Rightarrow> ('w, 'a) js \<Rightarrow> ('v, 'a) js \<Rightarrow> bool" where
  "agree R m n =
     (\<forall>w v. R w v \<longrightarrow> fst (m w) = fst (n v) \<and> R (snd (m w)) (snd (n v)))"

text \<open>The integration as the server builds it: the two tools of the repository.\<close>

definition shipped ::
  "'w node \<Rightarrow> 'w GithubTool \<Rightarrow> 'w TrelloTool \<Rightarrow> 'w WorkflowIntegration" where
  "shipped nd githubTool trelloTool =
     \<lparr>github = (\<lambda>args. GithubTool_run nd githubTool (Some args)),
      trello = TrelloTool_run trelloTool\<rparr>"

section \<open>A small installation\<close>

text \<open>
  One repository \<open>acme/app\<close> with the default branch \<open>develop\<close>.  The world is the list of
  what has been written to the two services.  The version-control service accepts a new
  branch and refuses a pull request; the task board either accepts every request or
  rejects every request.
\<close>

definition demo_octokit :: "js_string list octokit" where
  "demo_octokit =
     \<lparr>repos_listBranches = (\<lambda>owner repo n. js_return []),
      git_getRef = (\<lambda>owner repo ref. js_return (js ''c0ffee'')),
      git_createRef = (\<lambda>owner repo ref sha w. (Inr (), w @ [ref])),
      pulls_create = (\<lambda>owner repo title head base body.
         js_throw (Error (js ''Validation Failed''))),
      pulls_list = (\<lambda>owner repo state n. js_return []),
      repos_getContent = (\<lambda>owner repo path ref. js_throw (Error (js ''Not Found''))),
      repos_createOrUpdateFileContents = (\<lambda>owner repo path msg content sha branch.
         js_return ())\<rparr>"

definition demo_node :: "js_string list node" where
  "demo_node =
     \<lparr>Date_now = (\<lambda>w. 0),
      JSON_parse = (\<lambda>s. Inl (Error (js ''Unexpected token''))),
      base64_decode = Inr,
      base64_encode =
        (\<lambda>c. case c of None \<Rightarrow> Inl (Error (js ''Received undefined'')) | Some s \<Rightarrow> Inr s)\<rparr>"

definition demo_github :: "js_string list GithubTool" where
  "demo_github =
     \<lparr>repos = [\<lparr>r_name = js ''app'', r_repo = js ''acme/app'',
                 r_defaultBranch = Some (js ''develop'')\<rparr>],
      octokit = demo_octokit\<rparr>"

definition demo_item :: trello_item where
  "demo_item =
     \<lparr>i_id = js ''c1'', i_name = js ''Fix login'', i_url = js ''https://trello.example/c1'',
      i_closed = False, i_desc = None, i_due = None, i_labels = None, i_pos = js ''1'',
      i_list_name = None, i_text = js ''done'', i_author = js ''Ada'', i_date = js ''today''\<rparr>"

definition trello_up :: "js_string list TrelloTool" where
  "trello_up =
     \<lparr>client =
        \<lparr>client_get = (\<lambda>path. js_return []),
         client_post = (\<lambda>path body w. (Inr demo_item, w @ [path])),
         client_put = (\<lambda>path body w. (Inr demo_item, w @ [path]))\<rparr>,
      defaultBoardId = None, defaultListId = None\<rparr>"

definition trello_down :: "js_string list TrelloTool" where
  "trello_down =
     \<lparr>client =
        \<lparr>client_get = (\<lambda>path. js_throw (Error (js ''invalid token''))),
         client_post = (\<lambda>path body. js_throw (Error (js ''invalid token''))),
         client_put = (\<lambda>path body. js_throw (Error (js ''invalid token'')))\<rparr>,
      defaultBoardId = None, defaultListId = None\<rparr>"

definition task_params :: params where
  "task_params =
     \<lparr>p_repoName = Some (js ''app''), p_branchName = Some (js ''feature/login-fix''),
      p_taskTitle = Some (js ''Fix login''), p_taskDescription = Some (js ''Login fails''),
      p_trelloListId = Some (js ''L1''), p_dueDate = None, p_prTitle = Some (js ''Fix login''),
      p_prDescription = None, p_cardId = Some (js ''c1''), p_reviewListId = None,
      p_deleteBranch = Some True\<rparr>"

text \<open>
  Two mock integrations that give the same responses: a version-control tool that
  accepts and a task board that rejects.  The first one counts its calls, the second one
  keeps no state.
\<close>

definition counting_mock :: "nat WorkflowIntegration" where
  "counting_mock =
     \<lparr>github = (\<lambda>a n. (Inr \<lparr>content_text = js ''ok'', isError = False\<rparr>, Suc n)),
      trello = (\<lambda>a n. (Inl (Error (js ''down'')), Suc n))\<rparr>"

definition plain_mock :: "unit WorkflowIntegration" where
  "plain_mock =
     \<lparr>github = (\<lambda>a u. (Inr \<lparr>content_text = js ''ok'', isError = False\<rparr>, ())),
      trello = (\<lambda>a u. (Inl (Error (js ''down'')), ()))\<rparr>"

text \<open>What the version-control tool of the installation answers to a branch it creates.\<close>

definition demo_branch_result :: tool_result where
  "demo_branch_result =
     \<lparr>content_text =
        check_mark @ js '' Created branch '' @ apostrophe @ js ''feature/login-fix'' @
        apostrophe @ js '' from '' @ apostrophe @ js ''develop'' @ apostrophe @
        js '' in '' @ js ''acme'' @ js ''/'' @ js ''app'' @ js ''\<newline>'' @ memo @
        js '' Description: '' @ js ''Fix login'' @ js ''\<newline>\<newline>'' @
        compliance_text,
      isError = False\<rparr>"

section \<open>Properties of the policy\<close>

lemma hasValidPrefix_iff: "hasValidPrefix s = (\<exists>p \<in> set prefixes. startsWith s p)"
  by (simp add: hasValidPrefix_def list_ex_iff)

lemma hasValidPrefix_nonempty: "hasValidPrefix s \<Longrightarrow> s \<noteq> []"
  by (auto simp: hasValidPrefix_def prefixes_def startsWith_def js_def)

lemma allowedChars_test_iff:
  "hasValidPrefix s \<Longrightarrow> allowedChars_test s = (\<forall>c \<in> set s. allowed_unit c)"
  by (simp add: allowedChars_test_def hasValidPrefix_nonempty list_all_iff)

text \<open>The character class is the alphabet \<open>[A-Za-z0-9/_-]\<close>, code unit by code unit.\<close>

lemma range_units:
  fixes c :: "16 word"
  assumes "of_nat a \<le> c" "c \<le> of_nat b" "a < 65536" "b < 65536"
  shows "c \<in> set (map of_nat [a..<Suc b])"
proof -
  from assms have "a \<le> unat c" "unat c \<le> b"
    by (simp_all add: word_le_nat_alt unat_of_nat take_bit_nat_eq_self_iff le_less_trans)
  then have "unat c \<in> set [a..<Suc b]" by auto
  then have "of_nat (unat c) \<in> set (map of_nat [a..<Suc b] :: 16 word list)"
    by (simp only: set_map image_eqI)
  then show ?thesis by simp
qed

lemma upper: "map of_nat [65..<Suc 90] = (js ''ABCDEFGHIJKLMNOPQRSTUVWXYZ'' :: 16 word list)"
  by (simp add: js_def upt_rec)
lemma lower: "map of_nat [97..<Suc 122] = (js ''abcdefghijklmnopqrstuvwxyz'' :: 16 word list)"
  by (simp add: js_def upt_rec)
lemma digits: "map of_nat [48..<Suc 57] = (js ''0123456789'' :: 16 word list)"
  by (simp add: js_def upt_rec)

lemma allowed_unit_iff:
  "allowed_unit c =
   (c \<in> set (js ''ABCDEFGHIJKLMNOPQRSTUVWXYZabcdefghijklmnopqrstuvwxyz0123456789/_-''))"
proof
  assume "c \<in> set (js ''ABCDEFGHIJKLMNOPQRSTUVWXYZabcdefghijklmnopqrstuvwxyz0123456789/_-'')"
  then show "allowed_unit c"
    unfolding js_def allowed_unit_def by auto
next
  assume a: "allowed_unit c"
  have split: "js ''ABCDEFGHIJKLMNOPQRSTUVWXYZabcdefghijklmnopqrstuvwxyz0123456789/_-'' =
      js ''ABCDEFGHIJKLMNOPQRSTUVWXYZ'' @ js ''abcdefghijklmnopqrstuvwxyz'' @ js ''0123456789'' @ js ''/_-''"
    by (simp add: js_def)
  from a consider "of_nat 97 \<le> c \<and> c \<le> of_nat 122" | "of_nat 65 \<le> c \<and> c \<le> of_nat 90"
    | "of_nat 48 \<le> c \<and> c \<le> of_nat 57" | "c \<in> set (js ''/_-'')"
    unfolding allowed_unit_def js_def by auto
  then show "c \<in> set (js ''ABCDEFGHIJKLMNOPQRSTUVWXYZabcdefghijklmnopqrstuvwxyz0123456789/_-'')"
  proof cases
    case 1
    then have "c \<in> set (map of_nat [97..<Suc 122])" by (intro range_units) simp_all
    then show ?thesis unfolding split lower by simp
  next
    case 2
    then have "c \<in> set (map of_nat [65..<Suc 90])" by (intro range_units) simp_all
    then show ?thesis unfolding split upper by simp
  next
    case 3
    then have "c \<in> set (map of_nat [48..<Suc 57])" by (intro range_units) simp_all
    then show ?thesis unfolding split digits by simp
  next
    case 4
    then show ?thesis unfolding split by simp
  qed
qed

lemmas validate_eval =
  validateBranchName_def hasValidPrefix_def prefixes_def startsWith_def js_def maxLength_def
  allowedChars_test_def allowed_unit_def

text \<open>
  C6.  A candidate that starts with one of the whitelisted prefixes, has at most 50 code
  units and consists of letters, digits, slashes, underscores and hyphens only is valid,
  and the verdict carries the compliance confirmation.  \<open>feature/login-fix\<close> is such a
  candidate.
\<close>

theorem validateBranchName_accepts:
  "((\<exists>p \<in> set prefixes. startsWith s p) \<and> length s \<le> 50 \<and>
    set s \<subseteq> set (js ''ABCDEFGHIJKLMNOPQRSTUVWXYZabcdefghijklmnopqrstuvwxyz0123456789/_-'') \<longrightarrow>
      isValid (validateBranchName s) \<and>
      complianceMessage (validateBranchName s) = Some compliance_text) \<and>
   validateBranchName (js ''feature/login-fix'') =
     \<lparr>isValid = True, error = None, rules = None, complianceMessage = Some compliance_text\<rparr>"
proof (intro conjI impI)
  assume a: "(\<exists>p \<in> set prefixes. startsWith s p) \<and> length s \<le> 50 \<and>
    set s \<subseteq> set (js ''ABCDEFGHIJKLMNOPQRSTUVWXYZabcdefghijklmnopqrstuvwxyz0123456789/_-'')"
  then have p: "hasValidPrefix s"
    by (simp add: hasValidPrefix_iff)
  from a have "\<forall>c \<in> set s. allowed_unit c"
    unfolding allowed_unit_iff by blast
  with p have c: "allowedChars_test s"
    by (simp add: allowedChars_test_iff)
  from a p c show "isValid (validateBranchName s)"
    by (simp add: validateBranchName_def maxLength_def)
  from a p c show "complianceMessage (validateBranchName s) = Some compliance_text"
    by (simp add: validateBranchName_def maxLength_def)
next
  show "validateBranchName (js ''feature/login-fix'') =
     \<lparr>isValid = True, error = None, rules = None, complianceMessage = Some compliance_text\<rparr>"
    by (simp add: validate_eval)
qed

theorem validateBranchName_accepts_witness:
  "(\<exists>p \<in> set prefixes. startsWith (js ''fix/a_B-9'') p) \<and> length (js ''fix/a_B-9'') \<le> 50 \<and>
   set (js ''fix/a_B-9'') \<subseteq>
     set (js ''ABCDEFGHIJKLMNOPQRSTUVWXYZabcdefghijklmnopqrstuvwxyz0123456789/_-'') \<and>
   isValid (validateBranchName (js ''fix/a_B-9'')) \<and>
   complianceMessage (validateBranchName (js ''fix/a_B-9'')) = Some compliance_text"
proof -
  have h: "(\<exists>p \<in> set prefixes. startsWith (js ''fix/a_B-9'') p) \<and> length (js ''fix/a_B-9'') \<le> 50 \<and>
    set (js ''fix/a_B-9'') \<subseteq>
      set (js ''ABCDEFGHIJKLMNOPQRSTUVWXYZabcdefghijklmnopqrstuvwxyz0123456789/_-'')"
    by (simp add: prefixes_def startsWith_def js_def)
  with validateBranchName_accepts [of "js ''fix/a_B-9''"] show ?thesis
    by blast
qed

text \<open>
  C7.  The rules are tried in the order prefix, length, character set, and the first one
  that fails gives the verdict: a candidate without a whitelisted prefix gets the prefix
  verdict whatever its length and characters, and a candidate with such a prefix and more
  than 50 code units gets the length verdict whatever its characters.  The explanation of
  the prefix rule lists the whitelist.  \<open>xyz-thing\<close> fails on the prefix rule, \<open>feature/\<close>
  followed by sixty \<open>a\<close> on the length rule and \<open>feature/bad char\<close> on the character set.
\<close>

theorem validateBranchName_first_failure:
  "(\<not> (\<exists>p \<in> set prefixes. startsWith s p) \<longrightarrow>
      validateBranchName s =
        \<lparr>isValid = False, error = Some prefix_error, rules = Some prefix_rules,
         complianceMessage = None\<rparr>) \<and>
   ((\<exists>p \<in> set prefixes. startsWith s p) \<and> length s > 50 \<longrightarrow>
      validateBranchName s =
        \<lparr>isValid = False, error = Some (length_error s), rules = Some length_rules,
         complianceMessage = None\<rparr>) \<and>
   ((\<exists>p \<in> set prefixes. startsWith s p) \<and> length s \<le> 50 \<and>
    \<not> set s \<subseteq> set (js ''ABCDEFGHIJKLMNOPQRSTUVWXYZabcdefghijklmnopqrstuvwxyz0123456789/_-'') \<longrightarrow>
      validateBranchName s =
        \<lparr>isValid = False, error = Some chars_error, rules = Some chars_rules,
         complianceMessage = None\<rparr>) \<and>
   prefix_error =
     js ''Branch name must start with one of: feature/, fix/, enhancement/, hotfix/, bugfix/, feat/, chore/, docs/, style/, refactor/, test/'' \<and>
   validateBranchName (js ''xyz-thing'') =
     \<lparr>isValid = False, error = Some prefix_error, rules = Some prefix_rules,
      complianceMessage = None\<rparr> \<and>
   validateBranchName (js ''feature/'' @ replicate 60 (of_char CHR ''a'')) =
     \<lparr>isValid = False, error = Some (js ''Branch name too long (68/50 chars)''),
      rules = Some length_rules, complianceMessage = None\<rparr> \<and>
   validateBranchName (js ''feature/bad char'') =
     \<lparr>isValid = False, error = Some chars_error, rules = Some chars_rules,
      complianceMessage = None\<rparr>"
proof (intro conjI impI)
  assume "\<not> (\<exists>p \<in> set prefixes. startsWith s p)"
  then show "validateBranchName s =
        \<lparr>isValid = False, error = Some prefix_error, rules = Some prefix_rules,
         complianceMessage = None\<rparr>"
    by (simp add: validateBranchName_def hasValidPrefix_iff)
next
  assume "(\<exists>p \<in> set prefixes. startsWith s p) \<and> length s > 50"
  then show "validateBranchName s =
        \<lparr>isValid = False, error = Some (length_error s), rules = Some length_rules,
         complianceMessage = None\<rparr>"
    by (simp add: validateBranchName_def hasValidPrefix_iff maxLength_def)
next
  assume a: "(\<exists>p \<in> set prefixes. startsWith s p) \<and> length s \<le> 50 \<and>
    \<not> set s \<subseteq> set (js ''ABCDEFGHIJKLMNOPQRSTUVWXYZabcdefghijklmnopqrstuvwxyz0123456789/_-'')"
  then have p: "hasValidPrefix s"
    by (simp add: hasValidPrefix_iff)
  from a have "\<not> (\<forall>c \<in> set s. allowed_unit c)"
    unfolding allowed_unit_iff by blast
  with p have "\<not> allowedChars_test s"
    by (simp add: allowedChars_test_iff)
  with a p show "validateBranchName s =
        \<lparr>isValid = False, error = Some chars_error, rules = Some chars_rules,
         complianceMessage = None\<rparr>"
    by (simp add: validateBranchName_def maxLength_def)
next
  show "prefix_error =
     js ''Branch name must start with one of: feature/, fix/, enhancement/, hotfix/, bugfix/, feat/, chore/, docs/, style/, refactor/, test/''"
    by (simp add: prefix_error_def prefixes_def js_def)
  show "validateBranchName (js ''xyz-thing'') =
     \<lparr>isValid = False, error = Some prefix_error, rules = Some prefix_rules,
      complianceMessage = None\<rparr>"
    by (simp add: validate_eval)
  show "validateBranchName (js ''feature/'' @ replicate 60 (of_char CHR ''a'')) =
     \<lparr>isValid = False, error = Some (js ''Branch name too long (68/50 chars)''),
      rules = Some length_rules, complianceMessage = None\<rparr>"
    by (simp add: validate_eval length_error_def show_nat.simps)
  show "validateBranchName (js ''feature/bad char'') =
     \<lparr>isValid = False, error = Some chars_error, rules = Some chars_rules,
      complianceMessage = None\<rparr>"
    by (simp add: validate_eval)
qed

theorem validateBranchName_first_failure_witness:
  "\<not> (\<exists>p \<in> set prefixes. startsWith (js ''task-1 '' @ replicate 60 (of_char CHR ''a'')) p) \<and>
   validateBranchName (js ''task-1 '' @ replicate 60 (of_char CHR ''a'')) =
     \<lparr>isValid = False, error = Some prefix_error, rules = Some prefix_rules,
      complianceMessage = None\<rparr> \<and>
   (\<exists>p \<in> set prefixes. startsWith (js ''docs/ '' @ replicate 60 (of_char CHR ''a'')) p) \<and>
   length (js ''docs/ '' @ replicate 60 (of_char CHR ''a'')) > 50 \<and>
   validateBranchName (js ''docs/ '' @ replicate 60 (of_char CHR ''a'')) =
     \<lparr>isValid = False,
      error = Some (length_error (js ''docs/ '' @ replicate 60 (of_char CHR ''a''))),
      rules = Some length_rules, complianceMessage = None\<rparr> \<and>
   (\<exists>p \<in> set prefixes. startsWith (js ''docs/read me'') p) \<and>
   length (js ''docs/read me'') \<le> 50 \<and>
   \<not> set (js ''docs/read me'') \<subseteq>
     set (js ''ABCDEFGHIJKLMNOPQRSTUVWXYZabcdefghijklmnopqrstuvwxyz0123456789/_-'') \<and>
   validateBranchName (js ''docs/read me'') =
     \<lparr>isValid = False, error = Some chars_error, rules = Some chars_rules,
      complianceMessage = None\<rparr>"
proof -
  have 1: "\<not> (\<exists>p \<in> set prefixes. startsWith (js ''task-1 '' @ replicate 60 (of_char CHR ''a'')) p)"
    by (simp add: prefixes_def startsWith_def js_def)
  have 2: "(\<exists>p \<in> set prefixes. startsWith (js ''docs/ '' @ replicate 60 (of_char CHR ''a'')) p) \<and>
      length (js ''docs/ '' @ replicate 60 (of_char CHR ''a'')) > 50"
    by (simp add: prefixes_def startsWith_def js_def)
  have 3: "(\<exists>p \<in> set prefixes. startsWith (js ''docs/read me'') p) \<and>
      length (js ''docs/read me'') \<le> 50 \<and>
      \<not> set (js ''docs/read me'') \<subseteq>
        set (js ''ABCDEFGHIJKLMNOPQRSTUVWXYZabcdefghijklmnopqrstuvwxyz0123456789/_-'')"
    by (simp add: prefixes_def startsWith_def js_def)
  from 1 2 3
    validateBranchName_first_failure [of "js ''task-1 '' @ replicate 60 (of_char CHR ''a'')"]
    validateBranchName_first_failure [of "js ''docs/ '' @ replicate 60 (of_char CHR ''a'')"]
    validateBranchName_first_failure [of "js ''docs/read me''"]
  show ?thesis by blast
qed

section \<open>Properties of the version-control adapter\<close>

lemmas js_defs = js_return_def js_throw_def js_bind_def js_try_catch_def js_of_sum_def

lemma js_try_catchE:
  assumes "js_try_catch m h s = (res, s')"
  obtains (caught) e s1 where "m s = (Inl e, s1)" "h e s1 = (res, s')"
        | (returned) x where "m s = (Inr x, s')" "res = Inr x"
  using assms unfolding js_try_catch_def
  by (cases "m s") (auto split: sum.splits)

lemma action_distinct:
  "js ''create_branch'' \<noteq> js ''list_repos''" "js ''create_branch'' \<noteq> js ''list_branches''"
  "js ''create_pr'' \<noteq> js ''list_repos''" "js ''create_pr'' \<noteq> js ''list_branches''"
  "js ''create_pr'' \<noteq> js ''create_branch''"
  by (simp_all add: js_def)

lemma GithubTool_run_returns:
  "\<exists>r w'. GithubTool_run nd this (Some args) w = (Inr r, w')"
  unfolding GithubTool_run_def option.case Let_def js_try_catch_def
  by (simp add: js_return_def split: prod.splits sum.splits)

lemma GithubTool_run_unknown_repo:
  assumes "find (\<lambda>r. Some (r_name r) = g_repoName args \<or> Some (r_repo r) = g_repoName args)
             (repos this) = None"
  shows "GithubTool_run nd this (Some args) w =
     (Inr \<lparr>content_text = cross_mark @ js '' Error: '' @ js ''Repository '' @ apostrophe @
              str_of (g_repoName args) @ apostrophe @ js '' not found. Available repos: '' @
              join (js '', '') (map r_name (repos this)),
           isError = True\<rparr>, w)"
  unfolding GithubTool_run_def option.case Let_def using assms
  by (simp add: js_defs)

lemma GithubTool_run_unknown_action:
  assumes "find (\<lambda>r. Some (r_name r) = g_repoName args \<or> Some (r_repo r) = g_repoName args)
             (repos this) = Some targetRepo"
    and "g_action args = Some a" and "a \<notin> set actions"
  shows "GithubTool_run nd this (Some args) w =
     (Inr \<lparr>content_text = cross_mark @ js '' Error: '' @ js ''Unknown action: '' @ a,
           isError = True\<rparr>, w)"
  unfolding GithubTool_run_def option.case Let_def using assms
  by (simp add: js_defs actions_def)

lemma GithubTool_run_policy:
  assumes "find (\<lambda>r. Some (r_name r) = g_repoName args \<or> Some (r_repo r) = g_repoName args)
             (repos this) = Some targetRepo"
    and "g_action args = None \<or> g_action args = Some (js ''create_branch'')"
    and "\<not> isValid (validateBranchName
            (if truthy (g_taskBranch args) then str_of (g_taskBranch args)
             else js ''task-'' @ show_nat (Date_now nd w)))"
  shows "GithubTool_run nd this (Some args) w =
     (Inr \<lparr>content_text =
             cross_mark @ js '' Branch name validation failed: '' @
             str_of (error (validateBranchName
               (if truthy (g_taskBranch args) then str_of (g_taskBranch args)
                else js ''task-'' @ show_nat (Date_now nd w)))) @
             js ''\<newline>\<newline>'' @ clipboard @ js '' Company Rules:\<newline>'' @
             str_of (rules (validateBranchName
               (if truthy (g_taskBranch args) then str_of (g_taskBranch args)
                else js ''task-'' @ show_nat (Date_now nd w)))),
           isError = True\<rparr>, w)"
proof -
  from assms(2)
  have a: "(case g_action args of None \<Rightarrow> js ''create_branch'' | Some a \<Rightarrow> a) =
      js ''create_branch''"
    by auto
  show ?thesis
    unfolding GithubTool_run_def option.case using assms(1,3)
    by (simp add: a Let_def js_defs createBranch_def action_distinct)
qed

lemma GithubTool_run_create_branch:
  assumes "find (\<lambda>r. Some (r_name r) = g_repoName args \<or> Some (r_repo r) = g_repoName args)
             (repos this) = Some targetRepo"
    and "g_action args = None \<or> g_action args = Some (js ''create_branch'')"
    and "g_taskBranch args = Some b" and "b \<noteq> []"
    and "isValid (validateBranchName b)"
    and "git_getRef (octokit this) (element (split_on (of_char CHR ''/'') (r_repo targetRepo)) 0)
           (element (split_on (of_char CHR ''/'') (r_repo targetRepo)) 1)
           (js ''heads/'' @ str_of (r_defaultBranch targetRepo)) w = (Inr sha, w1)"
    and "git_createRef (octokit this)
           (element (split_on (of_char CHR ''/'') (r_repo targetRepo)) 0)
           (element (split_on (of_char CHR ''/'') (r_repo targetRepo)) 1)
           (js ''refs/heads/'' @ b) sha w1 = (Inr (), w2)"
  shows "GithubTool_run nd this (Some args) w =
     (Inr \<lparr>content_text =
             check_mark @ js '' Created branch '' @ apostrophe @ b @ apostrophe @
             js '' from '' @ apostrophe @ str_of (r_defaultBranch targetRepo) @ apostrophe @
             js '' in '' @
             str_of (element (split_on (of_char CHR ''/'') (r_repo targetRepo)) 0) @ js ''/'' @
             str_of (element (split_on (of_char CHR ''/'') (r_repo targetRepo)) 1) @
             js ''\<newline>'' @ memo @ js '' Description: '' @
             str_of (g_taskDescription args) @ js ''\<newline>\<newline>'' @
             str_of (complianceMessage (validateBranchName b)),
           isError = False\<rparr>, w2)"
proof -
  from assms(2)
  have a: "(case g_action args of None \<Rightarrow> js ''create_branch'' | Some a \<Rightarrow> a) =
      js ''create_branch''"
    by auto
  show ?thesis
    unfolding GithubTool_run_def option.case using assms(1,3-7)
    by (simp add: a Let_def js_defs createBranch_def action_distinct truthy_def str_of_def)
qed

lemma GithubTool_run_create_pr_refused:
  assumes "find (\<lambda>r. Some (r_name r) = g_repoName args \<or> Some (r_repo r) = g_repoName args)
             (repos this) = Some targetRepo"
    and "g_action args = Some (js ''create_pr'')"
    and "g_taskBranch args = Some b" and "b \<noteq> []"
    and "pulls_create (octokit this)
           (element (split_on (of_char CHR ''/'') (r_repo targetRepo)) 0)
           (element (split_on (of_char CHR ''/'') (r_repo targetRepo)) 1)
           (g_taskDescription args) b (r_defaultBranch targetRepo)
           (generatePRBody (g_taskDescription args) b (r_defaultBranch targetRepo)) w =
         (Inl e, w1)"
  shows "GithubTool_run nd this (Some args) w =
     (Inr \<lparr>content_text = cross_mark @ js '' Error: '' @ error_message e, isError = True\<rparr>,
      w1)"
  unfolding GithubTool_run_def option.case using assms
  by (simp add: Let_def js_defs createPullRequest_def action_distinct truthy_def str_of_def)

subsection \<open>A remote call that throws is reported as an error result\<close>

lemma observed_octokit_sel [simp]:
  "repos_listBranches (observed_octokit oc) =
     (\<lambda>owner repo n. watch (repos_listBranches oc owner repo n))"
  "git_getRef (observed_octokit oc) = (\<lambda>owner repo ref. watch (git_getRef oc owner repo ref))"
  "git_createRef (observed_octokit oc) =
     (\<lambda>owner repo ref sha. watch (git_createRef oc owner repo ref sha))"
  "pulls_create (observed_octokit oc) =
     (\<lambda>owner repo title head base body.
        watch (pulls_create oc owner repo title head base body))"
  "pulls_list (observed_octokit oc) =
     (\<lambda>owner repo state n. watch (pulls_list oc owner repo state n))"
  "repos_getContent (observed_octokit oc) =
     (\<lambda>owner repo path ref. watch (repos_getContent oc owner repo path ref))"
  "repos_createOrUpdateFileContents (observed_octokit oc) =
     (\<lambda>owner repo path msg content sha branch.
        watch (repos_createOrUpdateFileContents oc owner repo path msg content sha branch))"
  by (simp_all add: observed_octokit_def)

lemma observed_node_sel [simp]:
  "Date_now (observed_node nd) (w, l) = Date_now nd w"
  "JSON_parse (observed_node nd) = JSON_parse nd"
  "base64_decode (observed_node nd) = base64_decode nd"
  "base64_encode (observed_node nd) = base64_encode nd"
  by (simp_all add: observed_node_def)

lemma listBranches_flagged:
  "listBranches (observed_octokit oc) owner repo (w, log) = (res, (w', log')) \<Longrightarrow>
   flagged log res log'"
  unfolding listBranches_def flagged_def js_defs
  by (auto simp: watch_def split: prod.splits sum.splits)

lemma listPullRequests_flagged:
  "listPullRequests (observed_octokit oc) owner repo (w, log) = (res, (w', log')) \<Longrightarrow>
   flagged log res log'"
  unfolding listPullRequests_def flagged_def js_defs
  by (auto simp: watch_def split: prod.splits sum.splits)

lemma createBranch_flagged:
  "createBranch (observed_octokit oc) owner repo b base d (w, log) = (res, (w', log')) \<Longrightarrow>
   flagged log res log'"
  unfolding createBranch_def flagged_def js_defs Let_def
  by (auto simp: watch_def split: prod.splits sum.splits if_splits)

lemma createPullRequest_flagged:
  "createPullRequest (observed_octokit oc) owner repo b base d (w, log) = (res, (w', log')) \<Longrightarrow>
   flagged log res log'"
  unfolding createPullRequest_def flagged_def js_defs Let_def
  by (auto simp: watch_def split: prod.splits sum.splits if_splits)

lemma getFileContent_flagged:
  "getFileContent (observed_node nd) (observed_octokit oc) owner repo f base (w, log) =
     (res, (w', log')) \<Longrightarrow>
   flagged log res log'"
  unfolding getFileContent_def flagged_def js_defs Let_def
  by (auto simp: watch_def split: prod.splits sum.splits if_splits)

lemma updateFile_flagged:
  "updateFile (observed_node nd) (observed_octokit oc) owner repo f base (w, log) =
     (res, (w', log')) \<Longrightarrow>
   flagged log res log'"
  unfolding updateFile_def flagged_def js_defs Let_def
  by (auto simp: watch_def split: prod.splits sum.splits if_splits)

lemma remote_run_flagged:
  assumes "remote_run nd this args (w, []) = (res, (w', log'))"
  shows "\<exists>r. res = Inr r \<and> (True \<in> set log' \<longrightarrow> isError r)"
  using assms unfolding remote_run_def GithubTool_run_def option.case Let_def
proof (cases rule: js_try_catchE)
  case (caught e s1)
  then show ?thesis by (auto simp: js_return_def)
next
  case (returned x)
  from returned(1) have "flagged [] (Inr x) log'"
    by (auto simp: js_return_def js_throw_def flagged_def split: option.splits if_splits
        dest: listBranches_flagged listPullRequests_flagged createBranch_flagged
          createPullRequest_flagged getFileContent_flagged updateFile_flagged)
  with returned(2) show ?thesis by (simp add: flagged_def)
qed

lemma mirrors_watch: "mirrors (watch m) m"
  by (simp add: mirrors_def watch_def split: prod.splits)

lemma mirrors_return: "mirrors (js_return x) (js_return x)"
  by (simp add: mirrors_def js_return_def)

lemma mirrors_throw: "mirrors (js_throw x) (js_throw x)"
  by (simp add: mirrors_def js_throw_def)

lemma mirrors_of_sum: "mirrors (js_of_sum x) (js_of_sum x)"
  by (simp add: mirrors_def js_of_sum_def)

lemma mirrorsD:
  assumes "mirrors m' m"
  obtains l' where "m' (w, l) = (fst (m w), (snd (m w), l'))"
  using assms unfolding mirrors_def by (metis fst_conv prod.collapse snd_conv)

lemma mirrors_bind:
  assumes "mirrors m' m" and "\<And>x. mirrors (f' x) (f x)"
  shows "mirrors (js_bind m' f') (js_bind m f)"
  unfolding mirrors_def
proof (intro allI)
  fix w l
  from assms(1) obtain l' where 1: "m' (w, l) = (fst (m w), (snd (m w), l'))"
    by (rule mirrorsD)
  show "fst (js_bind m' f' (w, l)) = fst (js_bind m f w) \<and>
        fst (snd (js_bind m' f' (w, l))) = snd (js_bind m f w)"
  proof (cases "m w")
    case (Pair r w1)
    with 1 assms(2) show ?thesis
      by (cases r) (simp_all add: js_bind_def mirrors_def)
  qed
qed

lemma mirrors_try_catch:
  assumes "mirrors m' m" and "\<And>x. mirrors (f' x) (f x)"
  shows "mirrors (js_try_catch m' f') (js_try_catch m f)"
  unfolding mirrors_def
proof (intro allI)
  fix w l
  from assms(1) obtain l' where 1: "m' (w, l) = (fst (m w), (snd (m w), l'))"
    by (rule mirrorsD)
  show "fst (js_try_catch m' f' (w, l)) = fst (js_try_catch m f w) \<and>
        fst (snd (js_try_catch m' f' (w, l))) = snd (js_try_catch m f w)"
  proof (cases "m w")
    case (Pair r w1)
    with 1 assms(2) show ?thesis
      by (cases r) (simp_all add: js_try_catch_def mirrors_def)
  qed
qed

lemmas mirrors_intros =
  mirrors_watch mirrors_return mirrors_throw mirrors_of_sum mirrors_bind mirrors_try_catch

lemma listBranches_mirrors:
  "mirrors (listBranches (observed_octokit oc) owner repo) (listBranches oc owner repo)"
  unfolding listBranches_def by (simp add: mirrors_intros)

lemma listPullRequests_mirrors:
  "mirrors (listPullRequests (observed_octokit oc) owner repo) (listPullRequests oc owner repo)"
  unfolding listPullRequests_def by (simp add: mirrors_intros)

lemma createBranch_mirrors:
  "mirrors (createBranch (observed_octokit oc) owner repo b base d)
     (createBranch oc owner repo b base d)"
  unfolding createBranch_def Let_def by (simp add: mirrors_intros)

lemma createPullRequest_mirrors:
  "mirrors (createPullRequest (observed_octokit oc) owner repo b base d)
     (createPullRequest oc owner repo b base d)"
  unfolding createPullRequest_def Let_def by (simp add: mirrors_intros)

lemma getFileContent_mirrors:
  "mirrors (getFileContent (observed_node nd) (observed_octokit oc) owner repo f base)
     (getFileContent nd oc owner repo f base)"
  unfolding getFileContent_def Let_def by (simp add: mirrors_intros)

lemma updateFile_mirrors:
  "mirrors (updateFile (observed_node nd) (observed_octokit oc) owner repo f base)
     (updateFile nd oc owner repo f base)"
  unfolding updateFile_def Let_def by (simp add: mirrors_intros)

lemma listRepositoriesFormatted_repos:
  "listRepositoriesFormatted \<lparr>repos = repos this, octokit = oc\<rparr> =
   listRepositoriesFormatted this"
  by (simp add: listRepositoriesFormatted_def listRepositories_def)

lemmas op_mirrors =
  listBranches_mirrors [unfolded mirrors_def] listPullRequests_mirrors [unfolded mirrors_def]
  createBranch_mirrors [unfolded mirrors_def] createPullRequest_mirrors [unfolded mirrors_def]
  getFileContent_mirrors [unfolded mirrors_def] updateFile_mirrors [unfolded mirrors_def]
  mirrors_return [unfolded mirrors_def] mirrors_throw [unfolded mirrors_def]

lemma remote_run_mirrors: "mirrors (remote_run nd this args) (GithubTool_run nd this (Some args))"
  unfolding remote_run_def GithubTool_run_def option.case Let_def
proof (rule mirrors_try_catch, goal_cases)
  case 1
  show ?case
  proof (cases "find (\<lambda>r. Some (r_name r) = g_repoName args \<or> Some (r_repo r) = g_repoName args)
      (repos this)")
    case None
    then show ?thesis by (simp add: mirrors_throw)
  next
    case (Some targetRepo)
    then show ?thesis
      by (simp add: mirrors_def op_mirrors listRepositoriesFormatted_repos)
  qed
next
  case (2 x)
  show ?case by (rule mirrors_return)
qed

lemma remote_run_result:
  "fst (remote_run nd this args (w, [])) = fst (GithubTool_run nd this (Some args) w)"
  using remote_run_mirrors [of nd this args] by (simp add: mirrors_def)

lemma GithubTool_run_remote_failure:
  assumes "GithubTool_run nd this (Some args) w = (Inr r, w')"
    and "True \<in> set (remote_failures nd this args w)"
  shows "isError r"
proof -
  obtain res s where 1: "remote_run nd this args (w, []) = (res, (fst s, snd s))"
    by (metis prod.collapse)
  with remote_run_result [of nd this args w] assms(1) have "res = Inr r" by simp
  moreover from 1 assms(2) have "True \<in> set (snd s)"
    by (simp add: remote_failures_def)
  ultimately show ?thesis
    using remote_run_flagged [OF 1] by simp
qed

subsection \<open>The small installation, evaluated\<close>

lemma demo_find:
  "find (\<lambda>r. Some (r_name r) = Some (js ''app'') \<or> Some (r_repo r) = Some (js ''app''))
     (repos demo_github) =
   Some \<lparr>r_name = js ''app'', r_repo = js ''acme/app'', r_defaultBranch = Some (js ''develop'')\<rparr>"
  by (simp add: demo_github_def)

lemma demo_find_none:
  "find (\<lambda>r. Some (r_name r) = Some (js ''nope'') \<or> Some (r_repo r) = Some (js ''nope''))
     (repos demo_github) = None"
  by (simp add: demo_github_def js_def)

lemma demo_split:
  "element (split_on (of_char CHR ''/'') (js ''acme/app'')) 0 = Some (js ''acme'')"
  "element (split_on (of_char CHR ''/'') (js ''acme/app'')) 1 = Some (js ''app'')"
  "element (split_on 47 (js ''acme/app'')) 0 = Some (js ''acme'')"
  "element (split_on 47 (js ''acme/app'')) (Suc 0) = Some (js ''app'')"
  by (simp_all add: js_def)

lemma valid_login_fix:
  "validateBranchName (js ''feature/login-fix'') =
   \<lparr>isValid = True, error = None, rules = None, complianceMessage = Some compliance_text\<rparr>"
  by (simp add: validate_eval)

lemma invalid_xyz:
  "validateBranchName (js ''xyz-thing'') =
   \<lparr>isValid = False, error = Some prefix_error, rules = Some prefix_rules,
    complianceMessage = None\<rparr>"
  by (simp add: validate_eval)

lemma demo_truthy:
  "truthy (Some (js ''feature/login-fix''))" "truthy (Some (js ''xyz-thing''))"
  "truthy (Some (js ''L1''))" "truthy (Some (js ''c1''))" "\<not> truthy None"
  "js ''feature/login-fix'' \<noteq> []" "js ''xyz-thing'' \<noteq> []"
  by (simp_all add: truthy_def js_def)

lemma demo_branch_created:
  "GithubTool_run demo_node demo_github (Some (create_branch_args task_params)) [] =
     (Inr demo_branch_result, [js ''refs/heads/'' @ js ''feature/login-fix''])"
proof -
  let ?t = "\<lparr>r_name = js ''app'', r_repo = js ''acme/app'',
             r_defaultBranch = Some (js ''develop'')\<rparr>"
  have "GithubTool_run demo_node demo_github (Some (create_branch_args task_params)) [] =
     (Inr \<lparr>content_text =
             check_mark @ js '' Created branch '' @ apostrophe @ js ''feature/login-fix'' @
             apostrophe @ js '' from '' @ apostrophe @ str_of (r_defaultBranch ?t) @
             apostrophe @ js '' in '' @
             str_of (element (split_on (of_char CHR ''/'') (r_repo ?t)) 0) @ js ''/'' @
             str_of (element (split_on (of_char CHR ''/'') (r_repo ?t)) 1) @
             js ''\<newline>'' @ memo @ js '' Description: '' @
             str_of (g_taskDescription (create_branch_args task_params)) @
             js ''\<newline>\<newline>'' @
             str_of (complianceMessage (validateBranchName (js ''feature/login-fix''))),
           isError = False\<rparr>, [js ''refs/heads/'' @ js ''feature/login-fix''])"
    by (rule GithubTool_run_create_branch)
      (simp_all add: create_branch_args_def task_params_def demo_find valid_login_fix
        demo_truthy demo_github_def demo_octokit_def js_return_def)
  then show ?thesis
    by (simp add: demo_split str_of_def create_branch_args_def task_params_def valid_login_fix
        demo_branch_result_def)
qed

lemma demo_branch_refused:
  "GithubTool_run demo_node demo_github
     (Some (create_branch_args (task_params\<lparr>p_branchName := Some (js ''xyz-thing'')\<rparr>))) w =
     (Inr \<lparr>content_text =
             cross_mark @ js '' Branch name validation failed: '' @ prefix_error @
             js ''\<newline>\<newline>'' @ clipboard @ js '' Company Rules:\<newline>'' @
             prefix_rules,
           isError = True\<rparr>, w)"
proof -
  let ?a = "create_branch_args (task_params\<lparr>p_branchName := Some (js ''xyz-thing'')\<rparr>)"
  let ?t = "\<lparr>r_name = js ''app'', r_repo = js ''acme/app'',
             r_defaultBranch = Some (js ''develop'')\<rparr>"
  have b: "(if truthy (g_taskBranch ?a) then str_of (g_taskBranch ?a)
        else js ''task-'' @ show_nat (Date_now demo_node w)) = js ''xyz-thing''"
    by (simp add: create_branch_args_def demo_truthy str_of_def)
  have f: "find (\<lambda>r. Some (r_name r) = g_repoName ?a \<or> Some (r_repo r) = g_repoName ?a)
      (repos demo_github) = Some ?t"
    by (simp add: create_branch_args_def task_params_def demo_github_def)
  have act: "g_action ?a = None \<or> g_action ?a = Some (js ''create_branch'')"
    by (simp add: create_branch_args_def)
  have inv: "\<not> isValid (validateBranchName
      (if truthy (g_taskBranch ?a) then str_of (g_taskBranch ?a)
       else js ''task-'' @ show_nat (Date_now demo_node w)))"
    unfolding b by (simp add: invalid_xyz)
  from GithubTool_run_policy [OF f act inv] show ?thesis
    unfolding b by (simp add: invalid_xyz str_of_def)
qed

lemma demo_pr_refused:
  "GithubTool_run demo_node demo_github (Some (create_pr_args task_params)) w =
     (Inr \<lparr>content_text = cross_mark @ js '' Error: '' @ js ''Validation Failed'',
           isError = True\<rparr>, w)"
  using GithubTool_run_create_pr_refused
    [of "create_pr_args task_params" demo_github _ "js ''feature/login-fix''" w
      "Error (js ''Validation Failed'')" w demo_node]
  by (simp add: create_pr_args_def task_params_def demo_find demo_truthy demo_github_def
      demo_octokit_def js_throw_def)

lemma demo_unknown_repo:
  "GithubTool_run demo_node demo_github
     (Some (create_pr_args (task_params\<lparr>p_repoName := Some (js ''nope'')\<rparr>))) w =
     (Inr \<lparr>content_text =
             cross_mark @ js '' Error: '' @ js ''Repository '' @ apostrophe @ js ''nope'' @
             apostrophe @ js '' not found. Available repos: '' @ js ''app'',
           isError = True\<rparr>, w)"
proof -
  let ?a = "create_pr_args (task_params\<lparr>p_repoName := Some (js ''nope'')\<rparr>)"
  have f: "find (\<lambda>r. Some (r_name r) = g_repoName ?a \<or> Some (r_repo r) = g_repoName ?a)
      (repos demo_github) = None"
    by (simp add: create_pr_args_def demo_github_def js_def)
  from GithubTool_run_unknown_repo [OF f] show ?thesis
    by (simp add: create_pr_args_def str_of_def demo_github_def)
qed

lemma demo_pr_remote_failure:
  "remote_failures demo_node demo_github (create_pr_args task_params) [] = [True]"
  unfolding remote_failures_def remote_run_def GithubTool_run_def option.case
  by (simp add: Let_def create_pr_args_def task_params_def demo_find [unfolded demo_github_def]
      demo_github_def demo_octokit_def js_defs createPullRequest_def action_distinct
      demo_truthy watch_def)

section \<open>Properties of the task-board adapter\<close>

lemma trello_action_distinct:
  "js ''create_card'' \<noteq> js ''list_boards''" "js ''create_card'' \<noteq> js ''list_lists''"
  "js ''update_card'' \<noteq> js ''list_boards''" "js ''update_card'' \<noteq> js ''list_lists''"
  "js ''update_card'' \<noteq> js ''create_card''" "js ''update_card'' \<noteq> js ''list_cards''"
  "js ''move_card'' \<noteq> js ''list_boards''" "js ''move_card'' \<noteq> js ''list_lists''"
  "js ''move_card'' \<noteq> js ''create_card''" "js ''move_card'' \<noteq> js ''list_cards''"
  "js ''move_card'' \<noteq> js ''update_card''"
  "js ''add_comment'' \<noteq> js ''list_boards''" "js ''add_comment'' \<noteq> js ''list_lists''"
  "js ''add_comment'' \<noteq> js ''create_card''" "js ''add_comment'' \<noteq> js ''list_cards''"
  "js ''add_comment'' \<noteq> js ''update_card''" "js ''add_comment'' \<noteq> js ''move_card''"
  "js ''move_card'' \<noteq> js ''add_comment''"
  by (simp_all add: js_def)

text \<open>What \<open>TrelloTool.run\<close> throws is a new error that quotes the cause.\<close>

lemma TrelloTool_run_throws:
  assumes "TrelloTool_run this args w = (Inl e, w')"
  shows "\<exists>cause. e = Error (js ''Trello operation failed: '' @ error_message cause)"
  using assms unfolding TrelloTool_run_def Let_def
proof (cases rule: js_try_catchE)
  case (caught cause s1)
  then show ?thesis by (auto simp: js_throw_def)
next
  case (returned x)
  then show ?thesis by simp
qed

text \<open>An action of \<open>TrelloTool.run\<close> that a workflow requests runs the method of that action.\<close>

lemma TrelloTool_run_action:
  "t_action args = Some (js ''create_card'') \<Longrightarrow>
     TrelloTool_run this args =
       js_try_catch (createCard this args)
         (\<lambda>error. js_throw (Error (js ''Trello operation failed: '' @ error_message error)))"
  "t_action args = Some (js ''update_card'') \<Longrightarrow>
     TrelloTool_run this args =
       js_try_catch (updateCard this args)
         (\<lambda>error. js_throw (Error (js ''Trello operation failed: '' @ error_message error)))"
  "t_action args = Some (js ''move_card'') \<Longrightarrow>
     TrelloTool_run this args =
       js_try_catch (moveCard this args)
         (\<lambda>error. js_throw (Error (js ''Trello operation failed: '' @ error_message error)))"
  "t_action args = Some (js ''add_comment'') \<Longrightarrow>
     TrelloTool_run this args =
       js_try_catch (addComment this args)
         (\<lambda>error. js_throw (Error (js ''Trello operation failed: '' @ error_message error)))"
  by (simp_all add: TrelloTool_run_def Let_def trello_action_distinct)

lemma t_action_args [simp]:
  "t_action (create_card_args p) = Some (js ''create_card'')"
  "t_action (move_card_args p) = Some (js ''move_card'')"
  "t_action (pr_comment_args p) = Some (js ''add_comment'')"
  "t_action (close_card_args p) = Some (js ''update_card'')"
  "t_action (completion_comment_args p) = Some (js ''add_comment'')"
  by (simp_all add: create_card_args_def move_card_args_def pr_comment_args_def
      close_card_args_def completion_comment_args_def)

text \<open>
  Card creation fails when the client rejects the request: \<open>run\<close> throws, and the world is
  what the client left.
\<close>

lemma TrelloTool_run_create_card_rejected:
  assumes "truthy (or_else (p_trelloListId p) (defaultListId this))"
    and "\<And>body. client_post (client this) (js ''/1/cards'') body w = (Inl cause, w')"
  shows "TrelloTool_run this (create_card_args p) w =
         (Inl (Error (js ''Trello operation failed: '' @ error_message cause)), w')"
  using assms
  by (simp add: TrelloTool_run_action createCard_def Let_def js_defs create_card_args_def)

lemma demo_card_rejected:
  "TrelloTool_run trello_down (create_card_args task_params) w =
   (Inl (Error (js ''Trello operation failed: '' @ js ''invalid token'')), w)"
  using TrelloTool_run_create_card_rejected
    [of task_params trello_down w "Error (js ''invalid token'')" w]
  by (simp add: or_else_def task_params_def demo_truthy trello_down_def js_throw_def)


lemma demo_card_created:
  "p_trelloListId p = Some (js ''L1'') \<Longrightarrow>
   \<exists>c. TrelloTool_run trello_up (create_card_args p) w = (Inr c, w @ [js ''/1/cards''])"
  by (simp add: TrelloTool_run_action createCard_def Let_def js_defs create_card_args_def
      or_else_def demo_truthy trello_up_def)

lemma demo_card_closed:
  "\<exists>c. TrelloTool_run trello_up (close_card_args task_params) w =
     (Inr c, w @ [js ''/1/cards/'' @ js ''c1''])"
  by (simp add: TrelloTool_run_action updateCard_def Let_def js_defs close_card_args_def
      task_params_def demo_truthy trello_up_def str_of_def)

lemma completion_comment_nonempty: "truthy (Some (completion_comment p))"
  by (simp add: truthy_def completion_comment_def check_mark_def)

lemma demo_comment_added:
  "\<exists>c. TrelloTool_run trello_up (completion_comment_args task_params) w =
     (Inr c, w @ [js ''/1/cards/'' @ js ''c1'' @ js ''/actions/comments''])"
  by (simp add: TrelloTool_run_action addComment_def Let_def js_defs
      completion_comment_args_def completion_comment_nonempty)
    (simp add: task_params_def demo_truthy trello_up_def str_of_def)

section \<open>Properties of the workflows\<close>

lemmas wf_defs = with_results_def await_def results_push_def results_get_def

text \<open>Each workflow, as a case analysis on what its calls return.\<close>

lemma createTaskWithCard_eq:
  "createTaskWithCard this p w =
     (case github this (create_branch_args p) w of
        (Inl e, w1) \<Rightarrow>
          (Inr \<lparr>success = False, message = js ''Workflow failed: '' @ error_message e,
                results = []\<rparr>, w1)
      | (Inr b, w1) \<Rightarrow>
          (case trello this (create_card_args p) w1 of
             (Inl e, w2) \<Rightarrow>
               (Inr \<lparr>success = False, message = js ''Workflow failed: '' @ error_message e,
                     results = [\<lparr>e_type = js ''github'', e_action = js ''branch_created'',
                                 e_result = b\<rparr>]\<rparr>, w2)
           | (Inr c, w2) \<Rightarrow>
               (Inr \<lparr>success = True, message = js ''Task workflow completed successfully!'',
                     results = [\<lparr>e_type = js ''github'', e_action = js ''branch_created'',
                                 e_result = b\<rparr>,
                                \<lparr>e_type = js ''trello'', e_action = js ''card_created'',
                                 e_result = c\<rparr>]\<rparr>, w2)))"
  unfolding createTaskWithCard_def js_defs wf_defs
  by (simp split: prod.splits sum.splits)

lemma createPRAndUpdateCard_eq:
  "createPRAndUpdateCard this p w =
     (case github this (create_pr_args p) w of
        (Inl e, w1) \<Rightarrow>
          (Inr \<lparr>success = False, message = js ''PR workflow failed: '' @ error_message e,
                results = []\<rparr>, w1)
      | (Inr b, w1) \<Rightarrow>
          (if truthy (p_cardId p) \<and> truthy (p_reviewListId p) then
             (case trello this (move_card_args p) w1 of
                (Inl e, w2) \<Rightarrow>
                  (Inr \<lparr>success = False,
                        message = js ''PR workflow failed: '' @ error_message e,
                        results = [\<lparr>e_type = js ''github'', e_action = js ''pr_created'',
                                    e_result = b\<rparr>]\<rparr>, w2)
              | (Inr m, w2) \<Rightarrow>
                  (case trello this (pr_comment_args p) w2 of
                     (Inl e, w3) \<Rightarrow>
                       (Inr \<lparr>success = False,
                             message = js ''PR workflow failed: '' @ error_message e,
                             results = [\<lparr>e_type = js ''github'', e_action = js ''pr_created'',
                                         e_result = b\<rparr>,
                                        \<lparr>e_type = js ''trello'', e_action = js ''card_moved'',
                                         e_result = m\<rparr>]\<rparr>, w3)
                   | (Inr c, w3) \<Rightarrow>
                       (Inr \<lparr>success = True,
                             message = js ''PR workflow completed successfully!'',
                             results = [\<lparr>e_type = js ''github'', e_action = js ''pr_created'',
                                         e_result = b\<rparr>,
                                        \<lparr>e_type = js ''trello'', e_action = js ''card_moved'',
                                         e_result = m\<rparr>,
                                        \<lparr>e_type = js ''trello'', e_action = js ''comment_added'',
                                         e_result = c\<rparr>]\<rparr>, w3)))
           else
             (Inr \<lparr>success = True, message = js ''PR workflow completed successfully!'',
                   results = [\<lparr>e_type = js ''github'', e_action = js ''pr_created'',
                               e_result = b\<rparr>]\<rparr>, w1)))"
  unfolding createPRAndUpdateCard_def js_defs wf_defs
  by (simp split: prod.splits sum.splits)

lemma completeTask_eq:
  "completeTask this p w =
     (case trello this (close_card_args p) w of
        (Inl e, w1) \<Rightarrow>
          (Inr \<lparr>success = False,
                message = js ''Completion workflow failed: '' @ error_message e,
                results = []\<rparr>, w1)
      | (Inr b, w1) \<Rightarrow>
          (case trello this (completion_comment_args p) w1 of
             (Inl e, w2) \<Rightarrow>
               (Inr \<lparr>success = False,
                     message = js ''Completion workflow failed: '' @ error_message e,
                     results = [\<lparr>e_type = js ''trello'', e_action = js ''card_completed'',
                                 e_result = b\<rparr>]\<rparr>, w2)
           | (Inr c, w2) \<Rightarrow>
               (Inr \<lparr>success = True, message = js ''Task completion workflow finished!'',
                     results = [\<lparr>e_type = js ''trello'', e_action = js ''card_completed'',
                                 e_result = b\<rparr>,
                                \<lparr>e_type = js ''trello'',
                                 e_action = js ''completion_comment_added'',
                                 e_result = c\<rparr>]\<rparr>, w2)))"
  unfolding completeTask_def js_defs wf_defs
  by (simp split: prod.splits sum.splits)

lemmas workflow_eq = createTaskWithCard_eq createPRAndUpdateCard_eq completeTask_eq

text \<open>The calls of each workflow.\<close>

lemma observed_sel [simp]:
  "github (observed this) a (w, log) =
     (case github this a w of (r, w') \<Rightarrow> (r, (w', log @ [GithubCall a r])))"
  "trello (observed this) b (w, log) =
     (case trello this b w of (r, w') \<Rightarrow> (r, (w', log @ [TrelloCall b r])))"
  by (simp_all add: observed_def)

lemma calls_createTaskWithCard:
  "calls create_task_with_card this p w =
     (case github this (create_branch_args p) w of
        (Inl e, w1) \<Rightarrow> [GithubCall (create_branch_args p) (Inl e)]
      | (Inr b, w1) \<Rightarrow>
          [GithubCall (create_branch_args p) (Inr b),
           TrelloCall (create_card_args p) (fst (trello this (create_card_args p) w1))])"
  by (simp add: calls_def createTaskWithCard_eq split: prod.splits sum.splits)

lemma calls_createPRAndUpdateCard:
  "calls create_pr_and_update_card this p w =
     (case github this (create_pr_args p) w of
        (Inl e, w1) \<Rightarrow> [GithubCall (create_pr_args p) (Inl e)]
      | (Inr b, w1) \<Rightarrow>
          GithubCall (create_pr_args p) (Inr b) #
          (if truthy (p_cardId p) \<and> truthy (p_reviewListId p) then
             (case trello this (move_card_args p) w1 of
                (Inl e, w2) \<Rightarrow> [TrelloCall (move_card_args p) (Inl e)]
              | (Inr m, w2) \<Rightarrow>
                  [TrelloCall (move_card_args p) (Inr m),
                   TrelloCall (pr_comment_args p) (fst (trello this (pr_comment_args p) w2))])
           else []))"
  by (simp add: calls_def createPRAndUpdateCard_eq split: prod.splits sum.splits)

lemma calls_completeTask:
  "calls complete_task this p w =
     (case trello this (close_card_args p) w of
        (Inl e, w1) \<Rightarrow> [TrelloCall (close_card_args p) (Inl e)]
      | (Inr b, w1) \<Rightarrow>
          [TrelloCall (close_card_args p) (Inr b),
           TrelloCall (completion_comment_args p)
             (fst (trello this (completion_comment_args p) w1))])"
  by (simp add: calls_def completeTask_eq split: prod.splits sum.splits)

lemmas calls_eq = calls_createTaskWithCard calls_createPRAndUpdateCard calls_completeTask

text \<open>Observing a run changes neither its outcome nor the world it leaves.\<close>

lemma observed_run:
  "run_workflow k (observed this) p (w, []) =
     (fst (run_workflow k this p w), (snd (run_workflow k this p w), calls k this p w))"
  by (cases k) (simp_all add: calls_def workflow_eq split: prod.splits sum.splits)

lemma shipped_sel [simp]:
  "github (shipped nd githubTool trelloTool) =
     (\<lambda>args. GithubTool_run nd githubTool (Some args))"
  "trello (shipped nd githubTool trelloTool) = TrelloTool_run trelloTool"
  by (simp_all add: shipped_def)

text \<open>
  C9, as the code has it.  Called without an argument object \<open>GithubTool.run\<close> throws:
  the destructuring of its parameter is outside its \<open>try\<close>.
\<close>

theorem GithubTool_run_without_argument_throws:
  "GithubTool_run demo_node demo_github None [] = (Inl destructuring_error, []) \<and>
   \<not> (\<exists>r w'. GithubTool_run demo_node demo_github None [] = (Inr r, w'))"
  by (simp add: GithubTool_run_def js_throw_def)

text \<open>
  C9, amended.  Called with an argument object \<open>GithubTool.run\<close> never throws: for every
  installation, every argument object and every world it returns a result.  When the
  repository is unknown, when the action is unknown, when the branch name violates the
  policy, and when a remote call threw, the result it returns carries \<open>isError\<close>.  The
  workflows call it with an object literal, so in a workflow that runs on this tool no
  call of the version-control tool throws: its failure never reaches the handler of the
  workflow.
\<close>

theorem GithubTool_run_never_throws:
  "\<exists>r w'. GithubTool_run nd this (Some args) w = (Inr r, w') \<and>
     (find (\<lambda>r. Some (r_name r) = g_repoName args \<or> Some (r_repo r) = g_repoName args)
        (repos this) = None \<longrightarrow> isError r) \<and>
     ((\<exists>a. g_action args = Some a \<and> a \<notin> set actions) \<longrightarrow> isError r) \<and>
     ((g_action args = None \<or> g_action args = Some (js ''create_branch'')) \<and>
      \<not> isValid (validateBranchName
            (if truthy (g_taskBranch args) then str_of (g_taskBranch args)
             else js ''task-'' @ show_nat (Date_now nd w))) \<longrightarrow> isError r) \<and>
     (True \<in> set (remote_failures nd this args w) \<longrightarrow> isError r) \<and>
     \<not> list_ex (\<lambda>ev. is_github_call ev \<and> threw ev)
         (calls k (shipped nd this trelloTool) p w)"
proof -
  let ?found = "find (\<lambda>r. Some (r_name r) = g_repoName args \<or> Some (r_repo r) = g_repoName args)
    (repos this)"
  obtain r w' where run: "GithubTool_run nd this (Some args) w = (Inr r, w')"
    using GithubTool_run_returns [of nd this args w] by auto
  have 1: "isError r" if "?found = None"
    using GithubTool_run_unknown_repo [OF that, of nd w] run by simp
  have 2: "isError r" if "\<exists>a. g_action args = Some a \<and> a \<notin> set actions"
  proof (cases ?found)
    case None
    then show ?thesis by (rule 1)
  next
    case (Some targetRepo)
    from that obtain a where "g_action args = Some a" "a \<notin> set actions" by blast
    from GithubTool_run_unknown_action [OF Some this, of nd w] run show ?thesis by simp
  qed
  have 3: "isError r"
    if "(g_action args = None \<or> g_action args = Some (js ''create_branch'')) \<and>
      \<not> isValid (validateBranchName
            (if truthy (g_taskBranch args) then str_of (g_taskBranch args)
             else js ''task-'' @ show_nat (Date_now nd w)))"
  proof (cases ?found)
    case None
    then show ?thesis by (rule 1)
  next
    case (Some targetRepo)
    from that have a: "g_action args = None \<or> g_action args = Some (js ''create_branch'')"
      and b: "\<not> isValid (validateBranchName
            (if truthy (g_taskBranch args) then str_of (g_taskBranch args)
             else js ''task-'' @ show_nat (Date_now nd w)))" by blast+
    from GithubTool_run_policy [OF Some a b] run show ?thesis by simp
  qed
  have 4: "isError r" if "True \<in> set (remote_failures nd this args w)"
    using run that by (rule GithubTool_run_remote_failure)
  have 5: "\<not> list_ex (\<lambda>ev. is_github_call ev \<and> threw ev)
      (calls k (shipped nd this trelloTool) p w)"
  proof (cases k)
    case create_task_with_card
    obtain b w1 where "GithubTool_run nd this (Some (create_branch_args p)) w = (Inr b, w1)"
      using GithubTool_run_returns [of nd this "create_branch_args p" w] by auto
    with create_task_with_card show ?thesis
      by (simp add: calls_createTaskWithCard)
  next
    case create_pr_and_update_card
    obtain b w1 where "GithubTool_run nd this (Some (create_pr_args p)) w = (Inr b, w1)"
      using GithubTool_run_returns [of nd this "create_pr_args p" w] by auto
    with create_pr_and_update_card show ?thesis
      by (simp add: calls_createPRAndUpdateCard split: prod.splits sum.splits)
  next
    case complete_task
    then show ?thesis
      by (simp add: calls_completeTask split: prod.splits sum.splits)
  qed
  show ?thesis
  proof (intro exI conjI impI)
    show "GithubTool_run nd this (Some args) w = (Inr r, w')" by (rule run)
    show "\<not> list_ex (\<lambda>ev. is_github_call ev \<and> threw ev)
      (calls k (shipped nd this trelloTool) p w)" by (rule 5)
  qed (erule 1 2 3 4)+
qed

theorem GithubTool_run_never_throws_witness:
  "True \<in> set (remote_failures demo_node demo_github (create_pr_args task_params) []) \<and>
   (\<exists>r w'. GithubTool_run demo_node demo_github (Some (create_pr_args task_params)) [] = (Inr r, w') \<and>
      isError r) \<and>
   find (\<lambda>r. Some (r_name r) = Some (js ''nope'') \<or> Some (r_repo r) = Some (js ''nope''))
     (repos demo_github) = None \<and>
   (\<exists>r w'. GithubTool_run demo_node demo_github
      (Some (create_pr_args (task_params\<lparr>p_repoName := Some (js ''nope'')\<rparr>))) [] = (Inr r, w') \<and>
      isError r)"
proof -
  have 1: "True \<in> set (remote_failures demo_node demo_github (create_pr_args task_params) [])"
    by (simp add: demo_pr_remote_failure)
  have 2: "find (\<lambda>r. Some (r_name r) =
          g_repoName (create_pr_args (task_params\<lparr>p_repoName := Some (js ''nope'')\<rparr>)) \<or>
        Some (r_repo r) =
          g_repoName (create_pr_args (task_params\<lparr>p_repoName := Some (js ''nope'')\<rparr>)))
      (repos demo_github) = None"
    by (simp add: create_pr_args_def demo_github_def js_def)
  from 1 GithubTool_run_never_throws [of demo_node demo_github "create_pr_args task_params" "[]"]
  have a: "\<exists>r w'. GithubTool_run demo_node demo_github (Some (create_pr_args task_params)) [] =
      (Inr r, w') \<and> isError r"
    by blast
  from 2 GithubTool_run_never_throws [of demo_node demo_github
      "create_pr_args (task_params\<lparr>p_repoName := Some (js ''nope'')\<rparr>)" "[]"]
  have b: "\<exists>r w'. GithubTool_run demo_node demo_github
      (Some (create_pr_args (task_params\<lparr>p_repoName := Some (js ''nope'')\<rparr>))) [] = (Inr r, w') \<and>
      isError r"
    by blast
  from 1 a b demo_find_none show ?thesis by blast
qed

text \<open>
  C3.  In every run the calls are the step sequence of the workflow, cut after the first
  call that throws: no call but the last one of a run has thrown, and a run in which no
  call throws makes every step.  Nothing is called after a throw, so nothing undoes a
  step that was made, and the world is left as the throwing call left it.  A task
  creation whose branch call returns and whose card call throws returns \<open>success = false\<close>
  with the one entry \<open>github\<close>/\<open>branch_created\<close>.  With the tools of the repository, a
  card request that the Trello client rejects is such a throw.
\<close>

theorem first_throw_aborts:
  "take (length (calls k this p w)) (step_sequence k p) = map request_of (calls k this p w) \<and>
   \<not> list_ex threw (butlast (calls k this p w)) \<and>
   (\<not> list_ex threw (calls k this p w) \<longrightarrow>
      map request_of (calls k this p w) = step_sequence k p) \<and>
   (github this (create_branch_args p) w = (Inr b, w1) \<and>
    trello this (create_card_args p) w1 = (Inl e, w2) \<longrightarrow>
      run_workflow create_task_with_card this p w =
        (Inr \<lparr>success = False, message = js ''Workflow failed: '' @ error_message e,
              results = [\<lparr>e_type = js ''github'', e_action = js ''branch_created'',
                          e_result = b\<rparr>]\<rparr>, w2) \<and>
      calls create_task_with_card this p w =
        [GithubCall (create_branch_args p) (Inr b), TrelloCall (create_card_args p) (Inl e)]) \<and>
   (truthy (or_else (p_trelloListId p) (defaultListId trelloTool)) \<and>
    GithubTool_run nd githubTool (Some (create_branch_args p)) v = (Inr b, v1) \<and>
    (\<forall>body. client_post (client trelloTool) (js ''/1/cards'') body v1 = (Inl cause, v2)) \<longrightarrow>
      run_workflow create_task_with_card (shipped nd githubTool trelloTool) p v =
        (Inr \<lparr>success = False,
              message = js ''Workflow failed: '' @ js ''Trello operation failed: '' @
                error_message cause,
              results = [\<lparr>e_type = js ''github'', e_action = js ''branch_created'',
                          e_result = b\<rparr>]\<rparr>, v2))"
proof (intro conjI impI)
  show "take (length (calls k this p w)) (step_sequence k p) = map request_of (calls k this p w)"
    by (cases k) (simp_all add: calls_eq split: prod.splits sum.splits)
  show "\<not> list_ex threw (butlast (calls k this p w))"
    by (cases k) (simp_all add: calls_eq split: prod.splits sum.splits)
  show "map request_of (calls k this p w) = step_sequence k p"
    if "\<not> list_ex threw (calls k this p w)"
    using that
    by (cases k) (auto simp add: calls_eq split: prod.splits sum.splits if_splits)
next
  assume h: "github this (create_branch_args p) w = (Inr b, w1) \<and>
    trello this (create_card_args p) w1 = (Inl e, w2)"
  then show "run_workflow create_task_with_card this p w =
        (Inr \<lparr>success = False, message = js ''Workflow failed: '' @ error_message e,
              results = [\<lparr>e_type = js ''github'', e_action = js ''branch_created'',
                          e_result = b\<rparr>]\<rparr>, w2)"
    by (simp add: createTaskWithCard_eq)
  from h show "calls create_task_with_card this p w =
        [GithubCall (create_branch_args p) (Inr b), TrelloCall (create_card_args p) (Inl e)]"
    by (simp add: calls_createTaskWithCard)
next
  assume h: "truthy (or_else (p_trelloListId p) (defaultListId trelloTool)) \<and>
    GithubTool_run nd githubTool (Some (create_branch_args p)) v = (Inr b, v1) \<and>
    (\<forall>body. client_post (client trelloTool) (js ''/1/cards'') body v1 = (Inl cause, v2))"
  then have "TrelloTool_run trelloTool (create_card_args p) v1 =
      (Inl (Error (js ''Trello operation failed: '' @ error_message cause)), v2)"
    by (intro TrelloTool_run_create_card_rejected) simp_all
  with h show "run_workflow create_task_with_card (shipped nd githubTool trelloTool) p v =
        (Inr \<lparr>success = False,
              message = js ''Workflow failed: '' @ js ''Trello operation failed: '' @
                error_message cause,
              results = [\<lparr>e_type = js ''github'', e_action = js ''branch_created'',
                          e_result = b\<rparr>]\<rparr>, v2)"
    by (simp add: createTaskWithCard_eq)
qed

theorem first_throw_aborts_witness:
  "truthy (or_else (p_trelloListId task_params) (defaultListId trello_down)) \<and>
   GithubTool_run demo_node demo_github (Some (create_branch_args task_params)) [] =
     (Inr demo_branch_result, [js ''refs/heads/'' @ js ''feature/login-fix'']) \<and>
   (\<forall>body. client_post (client trello_down) (js ''/1/cards'') body
      [js ''refs/heads/'' @ js ''feature/login-fix''] =
      (Inl (Error (js ''invalid token'')), [js ''refs/heads/'' @ js ''feature/login-fix''])) \<and>
   run_workflow create_task_with_card (shipped demo_node demo_github trello_down) task_params [] =
     (Inr \<lparr>success = False,
           message = js ''Workflow failed: '' @ js ''Trello operation failed: '' @
             js ''invalid token'',
           results = [\<lparr>e_type = js ''github'', e_action = js ''branch_created'',
                       e_result = demo_branch_result\<rparr>]\<rparr>,
      [js ''refs/heads/'' @ js ''feature/login-fix'']) \<and>
   calls create_task_with_card (shipped demo_node demo_github trello_down) task_params [] =
     [GithubCall (create_branch_args task_params) (Inr demo_branch_result),
      TrelloCall (create_card_args task_params)
        (Inl (Error (js ''Trello operation failed: '' @ js ''invalid token'')))]"
proof -
  let ?w1 = "[js ''refs/heads/'' @ js ''feature/login-fix'']"
  let ?wf = "shipped demo_node demo_github trello_down"
  have 1: "truthy (or_else (p_trelloListId task_params) (defaultListId trello_down))"
    by (simp add: or_else_def task_params_def demo_truthy)
  have 2: "\<forall>body. client_post (client trello_down) (js ''/1/cards'') body ?w1 =
      (Inl (Error (js ''invalid token'')), ?w1)"
    by (simp add: trello_down_def js_throw_def)
  have 3: "github ?wf (create_branch_args task_params) [] = (Inr demo_branch_result, ?w1) \<and>
      trello ?wf (create_card_args task_params) ?w1 =
        (Inl (Error (js ''Trello operation failed: '' @ js ''invalid token'')), ?w1)"
    by (simp add: demo_branch_created demo_card_rejected)
  from 1 2 3 demo_branch_created
    first_throw_aborts [where k = create_task_with_card and this = ?wf and p = task_params
      and w = "[]" and b = demo_branch_result and ?w1.0 = ?w1
      and e = "Error (js ''Trello operation failed: '' @ js ''invalid token'')" and ?w2.0 = ?w1
      and trelloTool = trello_down and nd = demo_node and githubTool = demo_github
      and v = "[]" and ?v1.0 = ?w1 and cause = "Error (js ''invalid token'')" and ?v2.0 = ?w1]
  show ?thesis by simp
qed



lemma move_card_called:
  assumes "github this (create_pr_args p) w = (Inr prResult, w1)"
  shows "list_ex (is_trello_action (js ''move_card'')) (calls create_pr_and_update_card this p w) =
         (truthy (p_cardId p) \<and> truthy (p_reviewListId p))"
  using assms
  by (simp add: calls_createPRAndUpdateCard trello_action_distinct split: prod.splits sum.splits)

lemma add_comment_called:
  assumes "github this (create_pr_args p) w = (Inr prResult, w1)"
  shows "list_ex (is_trello_action (js ''add_comment''))
           (calls create_pr_and_update_card this p w) =
         (truthy (p_cardId p) \<and> truthy (p_reviewListId p) \<and>
          (\<exists>m w2. trello this (move_card_args p) w1 = (Inr m, w2)))"
  using assms
  by (auto simp add: calls_createPRAndUpdateCard trello_action_distinct
      split: prod.splits sum.splits)

text \<open>
  C5.  In a review transition whose pull-request call returns, the card is moved exactly
  when both a card identifier and a review list identifier are given (a given identifier
  is a string that is not empty, which is what the condition of the source tests); the
  comment is added exactly when, moreover, the move returned; and when not both are
  given the outcome is a success with the one entry of the pull request, and the
  pull-request call is the only call.  With the version-control tool of the repository
  the pull-request call always returns, so there the card is moved exactly when both are
  given.
\<close>

theorem move_card_iff_both_supplied:
  "(github this (create_pr_args p) w = (Inr prResult, w1) \<longrightarrow>
      list_ex (is_trello_action (js ''move_card'')) (calls create_pr_and_update_card this p w) =
        (truthy (p_cardId p) \<and> truthy (p_reviewListId p)) \<and>
      list_ex (is_trello_action (js ''add_comment'')) (calls create_pr_and_update_card this p w) =
        (truthy (p_cardId p) \<and> truthy (p_reviewListId p) \<and>
         (\<exists>m w2. trello this (move_card_args p) w1 = (Inr m, w2))) \<and>
      (\<not> (truthy (p_cardId p) \<and> truthy (p_reviewListId p)) \<longrightarrow>
         run_workflow create_pr_and_update_card this p w =
           (Inr \<lparr>success = True, message = js ''PR workflow completed successfully!'',
                 results = [\<lparr>e_type = js ''github'', e_action = js ''pr_created'',
                             e_result = prResult\<rparr>]\<rparr>, w1) \<and>
         calls create_pr_and_update_card this p w =
           [GithubCall (create_pr_args p) (Inr prResult)])) \<and>
   list_ex (is_trello_action (js ''move_card''))
     (calls create_pr_and_update_card (shipped nd githubTool trelloTool) p v) =
     (truthy (p_cardId p) \<and> truthy (p_reviewListId p))"
proof (intro conjI impI)
  assume h: "github this (create_pr_args p) w = (Inr prResult, w1)"
  then show "list_ex (is_trello_action (js ''move_card''))
        (calls create_pr_and_update_card this p w) =
        (truthy (p_cardId p) \<and> truthy (p_reviewListId p))"
    by (rule move_card_called)
  from h show "list_ex (is_trello_action (js ''add_comment''))
        (calls create_pr_and_update_card this p w) =
        (truthy (p_cardId p) \<and> truthy (p_reviewListId p) \<and>
         (\<exists>m w2. trello this (move_card_args p) w1 = (Inr m, w2)))"
    by (rule add_comment_called)
  assume n: "\<not> (truthy (p_cardId p) \<and> truthy (p_reviewListId p))"
  from h n show "run_workflow create_pr_and_update_card this p w =
           (Inr \<lparr>success = True, message = js ''PR workflow completed successfully!'',
                 results = [\<lparr>e_type = js ''github'', e_action = js ''pr_created'',
                             e_result = prResult\<rparr>]\<rparr>, w1)"
    by (auto simp add: createPRAndUpdateCard_eq)
  from h n show "calls create_pr_and_update_card this p w =
           [GithubCall (create_pr_args p) (Inr prResult)]"
    by (auto simp add: calls_createPRAndUpdateCard)
next
  obtain r v1 where "GithubTool_run nd githubTool (Some (create_pr_args p)) v = (Inr r, v1)"
    using GithubTool_run_returns [of nd githubTool "create_pr_args p" v] by auto
  then have "github (shipped nd githubTool trelloTool) (create_pr_args p) v = (Inr r, v1)"
    by simp
  then show "list_ex (is_trello_action (js ''move_card''))
     (calls create_pr_and_update_card (shipped nd githubTool trelloTool) p v) =
     (truthy (p_cardId p) \<and> truthy (p_reviewListId p))"
    by (rule move_card_called)
qed

theorem move_card_iff_both_supplied_witness:
  "github counting_mock (create_pr_args task_params) 0 =
     (Inr \<lparr>content_text = js ''ok'', isError = False\<rparr>, 1) \<and>
   \<not> (truthy (p_cardId task_params) \<and> truthy (p_reviewListId task_params)) \<and>
   \<not> list_ex (is_trello_action (js ''move_card''))
       (calls create_pr_and_update_card counting_mock task_params 0) \<and>
   run_workflow create_pr_and_update_card counting_mock task_params 0 =
     (Inr \<lparr>success = True, message = js ''PR workflow completed successfully!'',
           results = [\<lparr>e_type = js ''github'', e_action = js ''pr_created'',
                       e_result = \<lparr>content_text = js ''ok'', isError = False\<rparr>\<rparr>]\<rparr>, 1) \<and>
   truthy (p_cardId (task_params\<lparr>p_reviewListId := Some (js ''L1'')\<rparr>)) \<and>
   truthy (p_reviewListId (task_params\<lparr>p_reviewListId := Some (js ''L1'')\<rparr>)) \<and>
   list_ex (is_trello_action (js ''move_card''))
     (calls create_pr_and_update_card counting_mock
        (task_params\<lparr>p_reviewListId := Some (js ''L1'')\<rparr>) 0) \<and>
   \<not> list_ex (is_trello_action (js ''add_comment''))
       (calls create_pr_and_update_card counting_mock
          (task_params\<lparr>p_reviewListId := Some (js ''L1'')\<rparr>) 0)"
proof -
  let ?ok = "\<lparr>content_text = js ''ok'', isError = False\<rparr>"
  let ?q = "task_params\<lparr>p_reviewListId := Some (js ''L1'')\<rparr>"
  have 1: "github counting_mock (create_pr_args task_params) 0 = (Inr ?ok, 1)"
    "github counting_mock (create_pr_args ?q) 0 = (Inr ?ok, 1)"
    by (simp_all add: counting_mock_def)
  have 2: "\<not> (truthy (p_cardId task_params) \<and> truthy (p_reviewListId task_params))"
    by (simp add: task_params_def demo_truthy)
  have 3: "truthy (p_cardId ?q)" "truthy (p_reviewListId ?q)"
    by (simp_all add: task_params_def demo_truthy)
  have 4: "\<not> (\<exists>m w2. trello counting_mock (move_card_args ?q) 1 = (Inr m, w2))"
    by (simp add: counting_mock_def)
  from 1 2 3 4
    move_card_iff_both_supplied [where this = counting_mock and p = task_params and w = 0
      and prResult = ?ok and ?w1.0 = 1 and nd = demo_node and githubTool = demo_github
      and trelloTool = trello_down and v = "[]"]
    move_card_iff_both_supplied [where this = counting_mock and p = ?q and w = 0
      and prResult = ?ok and ?w1.0 = 1 and nd = demo_node and githubTool = demo_github
      and trelloTool = trello_down and v = "[]"]
  show ?thesis by simp
qed

lemma agreeD:
  assumes "agree R m n" "R w v"
  obtains r w' v' where "m w = (r, w')" "n v = (r, v')" "R w' v'"
  using assms unfolding agree_def by (metis prod.collapse)

lemma agree_two_steps:
  assumes g: "agree R m1 n1" and t: "agree R m2 n2" and r: "R w v"
  shows "\<exists>r1 w1 v1. m1 w = (r1, w1) \<and> n1 v = (r1, v1) \<and> R w1 v1 \<and>
           (\<exists>r2 w2 v2. m2 w1 = (r2, w2) \<and> n2 v1 = (r2, v2) \<and> R w2 v2)"
proof -
  from g r obtain r1 w1 v1 where 1: "m1 w = (r1, w1)" "n1 v = (r1, v1)" "R w1 v1"
    by (rule agreeD)
  from t 1(3) obtain r2 w2 v2 where 2: "m2 w1 = (r2, w2)" "n2 v1 = (r2, v2)" "R w2 v2"
    by (rule agreeD)
  from 1 2 show ?thesis by blast
qed

lemma createTaskWithCard_agree:
  assumes "\<And>a. agree R (github this a) (github that a)"
    and "\<And>a. agree R (trello this a) (trello that a)"
  shows "agree R (createTaskWithCard this p) (createTaskWithCard that p)"
  unfolding agree_def
proof (intro allI impI)
  fix w v assume "R w v"
  with agree_two_steps [OF assms(1) assms(2)]
  obtain r1 w1 v1 r2 w2 v2 where
    "github this (create_branch_args p) w = (r1, w1)"
    "github that (create_branch_args p) v = (r1, v1)"
    "R w1 v1" "trello this (create_card_args p) w1 = (r2, w2)"
    "trello that (create_card_args p) v1 = (r2, v2)" "R w2 v2"
    by blast
  then show "fst (createTaskWithCard this p w) = fst (createTaskWithCard that p v) \<and>
         R (snd (createTaskWithCard this p w)) (snd (createTaskWithCard that p v))"
    by (simp add: createTaskWithCard_eq split: sum.splits)
qed

lemma completeTask_agree:
  assumes "\<And>a. agree R (trello this a) (trello that a)"
  shows "agree R (completeTask this p) (completeTask that p)"
  unfolding agree_def
proof (intro allI impI)
  fix w v assume "R w v"
  with agree_two_steps [OF assms(1) assms(1)]
  obtain r1 w1 v1 r2 w2 v2 where
    "trello this (close_card_args p) w = (r1, w1)"
    "trello that (close_card_args p) v = (r1, v1)"
    "R w1 v1" "trello this (completion_comment_args p) w1 = (r2, w2)"
    "trello that (completion_comment_args p) v1 = (r2, v2)" "R w2 v2"
    by blast
  then show "fst (completeTask this p w) = fst (completeTask that p v) \<and>
         R (snd (completeTask this p w)) (snd (completeTask that p v))"
    by (simp add: completeTask_eq split: sum.splits)
qed

lemma createPRAndUpdateCard_agree:
  assumes g: "\<And>a. agree R (github this a) (github that a)"
    and t: "\<And>a. agree R (trello this a) (trello that a)"
  shows "agree R (createPRAndUpdateCard this p) (createPRAndUpdateCard that p)"
  unfolding agree_def
proof (intro allI impI)
  fix w v assume r: "R w v"
  from g r obtain r1 w1 v1 where 1:
    "github this (create_pr_args p) w = (r1, w1)" "github that (create_pr_args p) v = (r1, v1)"
    "R w1 v1"
    by (rule agreeD)
  from agree_two_steps [OF t t 1(3)]
  obtain r2 w2 v2 r3 w3 v3 where
    "trello this (move_card_args p) w1 = (r2, w2)"
    "trello that (move_card_args p) v1 = (r2, v2)"
    "R w2 v2" "trello this (pr_comment_args p) w2 = (r3, w3)"
    "trello that (pr_comment_args p) v2 = (r3, v3)" "R w3 v3"
    by blast
  with 1 show "fst (createPRAndUpdateCard this p w) = fst (createPRAndUpdateCard that p v) \<and>
         R (snd (createPRAndUpdateCard this p w)) (snd (createPRAndUpdateCard that p v))"
    by (simp add: createPRAndUpdateCard_eq split: sum.splits)
qed

text \<open>
  C8.  The outcome of a workflow depends on its tools through their responses only.  Let
  two integrations, over worlds of any two types, give identical responses: from related
  worlds each call of \<open>run\<close> answers the same in both and leaves related worlds.  Then,
  from related worlds and with the same parameters, every workflow returns the same
  outcome in both, and leaves related worlds.  Two fresh copies of one mock, started in
  the same state, are the case where the relation is equality.
\<close>

theorem run_workflow_deterministic:
  assumes "R w v"
    and "\<And>a. agree R (github this a) (github that a)"
    and "\<And>a. agree R (trello this a) (trello that a)"
  shows "fst (run_workflow k this p w) = fst (run_workflow k that p v) \<and>
         R (snd (run_workflow k this p w)) (snd (run_workflow k that p v))"
proof -
  have "agree R (run_workflow k this p) (run_workflow k that p)"
    using assms(2,3)
    by (cases k)
      (simp_all add: createTaskWithCard_agree createPRAndUpdateCard_agree completeTask_agree)
  with assms(1) show ?thesis by (simp add: agree_def)
qed

theorem run_workflow_deterministic_witness:
  "(\<forall>a. agree (\<lambda>n u. True) (github counting_mock a) (github plain_mock a)) \<and>
   (\<forall>a. agree (\<lambda>n u. True) (trello counting_mock a) (trello plain_mock a)) \<and>
   fst (run_workflow create_task_with_card counting_mock task_params 0) =
     fst (run_workflow create_task_with_card plain_mock task_params ()) \<and>
   fst (run_workflow create_task_with_card plain_mock task_params ()) =
     Inr \<lparr>success = False, message = js ''Workflow failed: '' @ js ''down'',
          results = [\<lparr>e_type = js ''github'', e_action = js ''branch_created'',
                      e_result = \<lparr>content_text = js ''ok'', isError = False\<rparr>\<rparr>]\<rparr>"
proof -
  have g: "agree (\<lambda>n u. True) (github counting_mock a) (github plain_mock a)" for a
    by (simp add: agree_def counting_mock_def plain_mock_def)
  have t: "agree (\<lambda>n u. True) (trello counting_mock a) (trello plain_mock a)" for a
    by (simp add: agree_def counting_mock_def plain_mock_def)
  have e: "fst (run_workflow create_task_with_card plain_mock task_params ()) =
     Inr \<lparr>success = False, message = js ''Workflow failed: '' @ js ''down'',
          results = [\<lparr>e_type = js ''github'', e_action = js ''branch_created'',
                      e_result = \<lparr>content_text = js ''ok'', isError = False\<rparr>\<rparr>]\<rparr>"
    by (simp add: createTaskWithCard_eq plain_mock_def)
  from run_workflow_deterministic
    [of "\<lambda>n u. True" 0 "()" counting_mock plain_mock create_task_with_card task_params,
      OF _ g t]
    g t e
  show ?thesis by simp
qed

lemma deleteBranch_unread:
  "close_card_args (p\<lparr>p_deleteBranch := d\<rparr>) = close_card_args p"
  "completion_comment_args (p\<lparr>p_deleteBranch := d\<rparr>) = completion_comment_args p"
  by (simp_all add: close_card_args_def completion_comment_args_def completion_comment_def)

text \<open>
  C10.  A completion never calls the version-control tool.  Its calls are the card
  update with \<open>closed: true\<close> and, when that returned, the completion comment; the log of a
  run holds no call of the version-control tool, the run is the same whatever that tool
  is, and the parameter \<open>deleteBranch\<close> changes neither the calls nor the outcome.
\<close>

theorem completeTask_never_calls_github:
  "filter is_github_call (calls complete_task this p w) = [] \<and>
   (\<exists>r1 r2. calls complete_task this p w = [TrelloCall (close_card_args p) r1] \<or>
            calls complete_task this p w =
              [TrelloCall (close_card_args p) r1, TrelloCall (completion_comment_args p) r2]) \<and>
   t_action (close_card_args p) = Some (js ''update_card'') \<and>
   t_closed (close_card_args p) = Some True \<and>
   t_action (completion_comment_args p) = Some (js ''add_comment'') \<and>
   run_workflow complete_task (this\<lparr>github := g\<rparr>) p w = run_workflow complete_task this p w \<and>
   calls complete_task this (p\<lparr>p_deleteBranch := Some True\<rparr>) w = calls complete_task this p w \<and>
   run_workflow complete_task this (p\<lparr>p_deleteBranch := Some True\<rparr>) w =
     run_workflow complete_task this p w"
proof (intro conjI)
  show "filter is_github_call (calls complete_task this p w) = []"
    by (simp add: calls_completeTask split: prod.splits sum.splits)
  show "\<exists>r1 r2. calls complete_task this p w = [TrelloCall (close_card_args p) r1] \<or>
            calls complete_task this p w =
              [TrelloCall (close_card_args p) r1, TrelloCall (completion_comment_args p) r2]"
    by (simp add: calls_completeTask split: prod.splits sum.splits)
  show "t_closed (close_card_args p) = Some True"
    by (simp add: close_card_args_def)
  show "run_workflow complete_task (this\<lparr>github := g\<rparr>) p w =
      run_workflow complete_task this p w"
    by (simp add: completeTask_eq split: prod.splits sum.splits)
  show "calls complete_task this (p\<lparr>p_deleteBranch := Some True\<rparr>) w =
     calls complete_task this p w"
    by (simp only: calls_completeTask deleteBranch_unread)
  show "run_workflow complete_task this (p\<lparr>p_deleteBranch := Some True\<rparr>) w =
     run_workflow complete_task this p w"
    by (simp only: run_workflow.simps completeTask_eq deleteBranch_unread)
qed simp_all

theorem completeTask_never_calls_github_witness:
  "p_deleteBranch task_params = Some True \<and>
   filter is_github_call
     (calls complete_task (shipped demo_node demo_github trello_up) task_params []) = [] \<and>
   map request_of (calls complete_task (shipped demo_node demo_github trello_up) task_params []) =
     [TrelloRequest (close_card_args task_params),
      TrelloRequest (completion_comment_args task_params)] \<and>
   snd (run_workflow complete_task (shipped demo_node demo_github trello_up) task_params []) =
     [js ''/1/cards/'' @ js ''c1'', js ''/1/cards/'' @ js ''c1'' @ js ''/actions/comments'']"
proof -
  let ?wf = "shipped demo_node demo_github trello_up"
  obtain c1 where 1: "TrelloTool_run trello_up (close_card_args task_params) [] =
      (Inr c1, [] @ [js ''/1/cards/'' @ js ''c1''])"
    using demo_card_closed by blast
  obtain c2 where 2: "TrelloTool_run trello_up (completion_comment_args task_params)
      ([] @ [js ''/1/cards/'' @ js ''c1'']) =
      (Inr c2, ([] @ [js ''/1/cards/'' @ js ''c1'']) @
         [js ''/1/cards/'' @ js ''c1'' @ js ''/actions/comments''])"
    using demo_comment_added by blast
  from 1 2 have "map request_of (calls complete_task ?wf task_params []) =
     [TrelloRequest (close_card_args task_params),
      TrelloRequest (completion_comment_args task_params)]"
    by (simp add: calls_completeTask)
  moreover from 1 2 have "snd (run_workflow complete_task ?wf task_params []) =
     [js ''/1/cards/'' @ js ''c1'', js ''/1/cards/'' @ js ''c1'' @ js ''/actions/comments'']"
    by (simp add: completeTask_eq)
  moreover have "p_deleteBranch task_params = Some True"
    by (simp add: task_params_def)
  ultimately show ?thesis
    using completeTask_never_calls_github [of ?wf task_params "[]" "github ?wf"]
    by simp
qed

section \<open>Where the workflows leave the specification\<close>

text \<open>
  C1.  The specification has a task creation whose branch is refused by the policy
  return \<open>success = false\<close> with an empty ledger and no card.  \<open>GithubTool.run\<close> returns
  the refusal as a result with \<open>isError\<close> and does not throw, and the workflow does not
  read \<open>isError\<close>: for the branch name \<open>xyz-thing\<close> the run of the installation records
  the refusal as \<open>branch_created\<close>, creates the card, and reports success.
\<close>

theorem createTaskWithCard_policy_violation_run:
  "\<exists>card.
     run_workflow create_task_with_card (shipped demo_node demo_github trello_up)
       (task_params\<lparr>p_branchName := Some (js ''xyz-thing'')\<rparr>) [] =
     (Inr \<lparr>success = True, message = js ''Task workflow completed successfully!'',
           results =
             [\<lparr>e_type = js ''github'', e_action = js ''branch_created'',
               e_result =
                 \<lparr>content_text =
                    cross_mark @ js '' Branch name validation failed: '' @ prefix_error @
                    js ''\<newline>\<newline>'' @ clipboard @ js '' Company Rules:\<newline>'' @
                    prefix_rules,
                  isError = True\<rparr>\<rparr>,
              \<lparr>e_type = js ''trello'', e_action = js ''card_created'', e_result = card\<rparr>]\<rparr>,
      [js ''/1/cards''])"
proof -
  let ?p = "task_params\<lparr>p_branchName := Some (js ''xyz-thing'')\<rparr>"
  have "p_trelloListId ?p = Some (js ''L1'')"
    by (simp add: task_params_def)
  then obtain card where
    "TrelloTool_run trello_up (create_card_args ?p) [] = (Inr card, [] @ [js ''/1/cards''])"
    using demo_card_created by blast
  then have "run_workflow create_task_with_card (shipped demo_node demo_github trello_up) ?p [] =
     (Inr \<lparr>success = True, message = js ''Task workflow completed successfully!'',
           results =
             [\<lparr>e_type = js ''github'', e_action = js ''branch_created'',
               e_result =
                 \<lparr>content_text =
                    cross_mark @ js '' Branch name validation failed: '' @ prefix_error @
                    js ''\<newline>\<newline>'' @ clipboard @ js '' Company Rules:\<newline>'' @
                    prefix_rules,
                  isError = True\<rparr>\<rparr>,
              \<lparr>e_type = js ''trello'', e_action = js ''card_created'', e_result = card\<rparr>]\<rparr>,
      [js ''/1/cards''])"
    by (simp add: createTaskWithCard_eq demo_branch_refused)
  then show ?thesis by blast
qed

text \<open>
  C2.  The specification has the ledger hold the steps that succeeded only, and success
  mean that every required step succeeded.  For a repository that is not configured the
  pull-request step fails inside \<open>GithubTool.run\<close>, which returns the failure as a result
  with \<open>isError\<close>; the run of the installation records it as \<open>pr_created\<close> and reports
  success.
\<close>

theorem createPRAndUpdateCard_unknown_repo_run:
  "run_workflow create_pr_and_update_card (shipped demo_node demo_github trello_up)
     (task_params\<lparr>p_repoName := Some (js ''nope'')\<rparr>) [] =
   (Inr \<lparr>success = True, message = js ''PR workflow completed successfully!'',
         results =
           [\<lparr>e_type = js ''github'', e_action = js ''pr_created'',
             e_result =
               \<lparr>content_text =
                  cross_mark @ js '' Error: '' @ js ''Repository '' @ apostrophe @
                  js ''nope'' @ apostrophe @ js '' not found. Available repos: '' @ js ''app'',
                isError = True\<rparr>\<rparr>]\<rparr>,
    [])"
  by (simp add: createPRAndUpdateCard_eq demo_unknown_repo)
    (simp add: task_params_def demo_truthy)

end
